theory Spec2Isabelle
  imports Complex_Main "HOL-Library.List_Lexorder" "HOL-Library.Char_ord" "HOL-Library.Multiset"
begin

section \<open>JavaScript values\<close>

text \<open>
  The program is \<^verbatim>\<open>netlify/functions/get-azure-costs.js\<close>. Its data are JSON
  values: the request body, the query string and the rows of the cost response.

  A JavaScript number is an IEEE 754 double: \<open>NaN\<close>, an infinity, or a finite value,
  which is a rational. The two zeros are one value here: the program never divides by a
  zero and never prints a zero, so it cannot tell them apart. A string is a list of
  characters. The values that the program reads from JSON are the primitive ones; arrays
  and objects as field values are not modelled.
\<close>

datatype number = NaN | Fin rat | PInf | NInf

datatype jsval = Undefined | Null | Bool bool | Number number | String string

datatype error = TypeError

text \<open>ToBoolean: what \<^verbatim>\<open>if (v)\<close>, \<^verbatim>\<open>!v\<close> and \<^verbatim>\<open>a || b\<close> test.\<close>

fun number_truthy :: "number \<Rightarrow> bool" where
  "number_truthy NaN = False"
| "number_truthy (Fin x) = (x \<noteq> 0)"
| "number_truthy PInf = True"
| "number_truthy NInf = True"

fun truthy :: "jsval \<Rightarrow> bool" where
  "truthy Undefined = False"
| "truthy Null = False"
| "truthy (Bool b) = b"
| "truthy (Number n) = number_truthy n"
| "truthy (String s) = (s \<noteq> [])"

text \<open>\<^verbatim>\<open>a || b\<close>: the left operand when it is truthy, otherwise the right one.\<close>

definition js_or :: "jsval \<Rightarrow> jsval \<Rightarrow> jsval" where
  "js_or a b = (if truthy a then a else b)"

subsection \<open>Rounding to a double\<close>

text \<open>
  Every arithmetic operation of JavaScript returns the double nearest to the exact
  result, a tie going to the double whose significand is even. The finite doubles are
  the numbers \<open>m * 2 ^ k\<close> with \<open>|m| < 2 ^ 53\<close> and \<open>-1074 \<le> k \<le> 971\<close>. Around a
  rational \<open>q\<close> they are spaced \<open>2 ^ k\<close> apart, for the least such \<open>k\<close> with
  \<open>|q| < 2 ^ (k + 53)\<close>; a rounded magnitude of \<open>2 ^ 1024\<close> or more is an infinity.
\<close>

definition round_half_even :: "rat \<Rightarrow> int" where
  "round_half_even y =
     (let f = \<lfloor>y\<rfloor>; d = y - of_int f
      in if d < 1 / 2 then f else if 1 / 2 < d then f + 1 else if even f then f else f + 1)"

definition least_from :: "(int \<Rightarrow> bool) \<Rightarrow> int \<Rightarrow> int \<Rightarrow> int" where
  "least_from P i j = (case find P [i..j] of Some k \<Rightarrow> k | None \<Rightarrow> j + 1)"

definition quantum :: "rat \<Rightarrow> int" where
  "quantum q = least_from (\<lambda>k. \<bar>q\<bar> < 2 powi (k + 53)) (- 1074) 971"

definition binary64 :: "rat \<Rightarrow> number" where
  "binary64 q =
     (let k = quantum q;
          r = of_int (round_half_even (q / 2 powi k)) * 2 powi k
      in if 2 powi 1024 \<le> \<bar>r\<bar> then (if 0 < q then PInf else NInf) else Fin r)"

text \<open>The least positive double. Every finite double is a whole multiple of it.\<close>

definition least_double :: rat where
  "least_double = 2 powi (- 1074)"

text \<open>
  The specification also speaks of exact arithmetic, so the arithmetic is a parameter:
  \<open>Binary64\<close> is that of JavaScript, \<open>Exact\<close> rounds nothing.
\<close>

datatype arithmetic = Exact | Binary64

fun fl :: "arithmetic \<Rightarrow> rat \<Rightarrow> number" where
  "fl Exact q = Fin q"
| "fl Binary64 q = binary64 q"

text \<open>
  What the JavaScript engine supplies and the source does not define: the conversion
  between numbers and strings, the locale-sensitive string comparison, the parsing of
  dates and of JSON text, the clock, and the order in which \<^verbatim>\<open>Array.prototype.sort\<close>
  leaves an array whose comparator is not consistent. They are parameters of the model,
  together with the arithmetic, so that every theorem holds for every engine.
\<close>

datatype json_body = BNull | BPrimitive | BObject "(string \<times> jsval) list"

record engine =
  arithmetic :: arithmetic
  NumberToString :: "rat \<Rightarrow> string"
  StringToNumber :: "string \<Rightarrow> number"
  localeCompare :: "string \<Rightarrow> string \<Rightarrow> int"
  DateTimeValue :: "jsval \<Rightarrow> number"
  JSON_parse :: "string \<Rightarrow> json_body option"
  toISOString_now :: string
  sortOrder :: "(nat \<Rightarrow> nat \<Rightarrow> number) \<Rightarrow> nat \<Rightarrow> nat list"

text \<open>
  \<open>DateTimeValue eng v\<close> is \<^verbatim>\<open>new Date(v).getTime()\<close> (\<open>NaN\<close> for an invalid date);
  \<open>JSON_parse eng s\<close> is \<open>None\<close> when \<^verbatim>\<open>JSON.parse(s)\<close> throws, and otherwise tells
  \<^verbatim>\<open>null\<close>, a primitive or an array (no property the program reads), and an object
  with its own properties in insertion order; \<open>sortOrder eng cmp n\<close> lists the indices
  of an array of length \<open>n\<close> in the order in which the sort leaves its elements, \<open>cmp\<close>
  comparing the elements at two indices.
\<close>

fun ToString :: "engine \<Rightarrow> jsval \<Rightarrow> string" where
  "ToString eng Undefined = ''undefined''"
| "ToString eng Null = ''null''"
| "ToString eng (Bool b) = (if b then ''true'' else ''false'')"
| "ToString eng (Number NaN) = ''NaN''"
| "ToString eng (Number (Fin x)) = NumberToString eng x"
| "ToString eng (Number PInf) = ''Infinity''"
| "ToString eng (Number NInf) = ''-Infinity''"
| "ToString eng (String s) = s"

fun ToNumber :: "engine \<Rightarrow> jsval \<Rightarrow> number" where
  "ToNumber eng Undefined = NaN"
| "ToNumber eng Null = Fin 0"
| "ToNumber eng (Bool b) = (if b then Fin 1 else Fin 0)"
| "ToNumber eng (Number n) = n"
| "ToNumber eng (String s) = StringToNumber eng s"

subsection \<open>Arithmetic\<close>

text \<open>
  The operations on finite numbers round the exact result; on \<open>NaN\<close> and the infinities
  they follow IEEE 754.
\<close>

fun nmul :: "arithmetic \<Rightarrow> number \<Rightarrow> number \<Rightarrow> number" where
  "nmul ar (Fin x) (Fin y) = fl ar (x * y)"
| "nmul ar NaN b = NaN"
| "nmul ar a NaN = NaN"
| "nmul ar PInf (Fin y) = (if y = 0 then NaN else if 0 < y then PInf else NInf)"
| "nmul ar NInf (Fin y) = (if y = 0 then NaN else if 0 < y then NInf else PInf)"
| "nmul ar (Fin x) PInf = (if x = 0 then NaN else if 0 < x then PInf else NInf)"
| "nmul ar (Fin x) NInf = (if x = 0 then NaN else if 0 < x then NInf else PInf)"
| "nmul ar PInf PInf = PInf"
| "nmul ar PInf NInf = NInf"
| "nmul ar NInf PInf = NInf"
| "nmul ar NInf NInf = PInf"

fun nadd :: "arithmetic \<Rightarrow> number \<Rightarrow> number \<Rightarrow> number" where
  "nadd ar (Fin x) (Fin y) = fl ar (x + y)"
| "nadd ar NaN b = NaN"
| "nadd ar a NaN = NaN"
| "nadd ar PInf NInf = NaN"
| "nadd ar NInf PInf = NaN"
| "nadd ar PInf b = PInf"
| "nadd ar NInf b = NInf"
| "nadd ar (Fin x) b = b"

fun nneg :: "number \<Rightarrow> number" where
  "nneg NaN = NaN"
| "nneg (Fin x) = Fin (- x)"
| "nneg PInf = NInf"
| "nneg NInf = PInf"

definition nsub :: "arithmetic \<Rightarrow> number \<Rightarrow> number \<Rightarrow> number" where
  "nsub ar a b = nadd ar a (nneg b)"

text \<open>
  The program divides by the constants 100 and 86400000 and by a day count that it has
  tested to be positive, never by a zero; a zero divisor is taken to be \<open>+0\<close>.
\<close>

fun ndiv :: "arithmetic \<Rightarrow> number \<Rightarrow> number \<Rightarrow> number" where
  "ndiv ar (Fin x) (Fin y) =
     (if y = 0 then (if x = 0 then NaN else if 0 < x then PInf else NInf)
      else fl ar (x / y))"
| "ndiv ar NaN b = NaN"
| "ndiv ar a NaN = NaN"
| "ndiv ar PInf (Fin y) = (if 0 \<le> y then PInf else NInf)"
| "ndiv ar NInf (Fin y) = (if 0 \<le> y then NInf else PInf)"
| "ndiv ar (Fin x) b = Fin 0"
| "ndiv ar a b = NaN"

text \<open>\<^verbatim>\<open>a < b\<close> and \<^verbatim>\<open>a > b\<close> on numbers: false when an operand is \<open>NaN\<close>.\<close>

fun nless :: "number \<Rightarrow> number \<Rightarrow> bool" where
  "nless (Fin x) (Fin y) = (x < y)"
| "nless NaN b = False"
| "nless a NaN = False"
| "nless a NInf = False"
| "nless PInf b = False"
| "nless NInf b = True"
| "nless (Fin x) PInf = True"

fun isNaN :: "number \<Rightarrow> bool" where
  "isNaN NaN = True"
| "isNaN (Fin x) = False"
| "isNaN PInf = False"
| "isNaN NInf = False"

text \<open>
  \<^verbatim>\<open>Math.round\<close> is the nearest integer, a tie going towards \<open>+\<infinity>\<close>;
  \<^verbatim>\<open>Math.floor\<close> is the floor. Both are exact: the nearest integer and the floor of a
  double are doubles.
\<close>

fun Math_round :: "number \<Rightarrow> number" where
  "Math_round (Fin x) = Fin (of_int \<lfloor>x + 1 / 2\<rfloor>)"
| "Math_round a = a"

fun Math_floor :: "number \<Rightarrow> number" where
  "Math_floor (Fin x) = Fin (of_int \<lfloor>x\<rfloor>)"
| "Math_floor a = a"

text \<open>The idiom \<^verbatim>\<open>Math.round(x * 100) / 100\<close> of the source.\<close>

definition round2 :: "arithmetic \<Rightarrow> number \<Rightarrow> number" where
  "round2 ar x = ndiv ar (Math_round (nmul ar x (Fin 100))) (Fin 100)"

section \<open>Objects\<close>

text \<open>
  An object that the program builds or receives is the list of its own properties in
  insertion order, the keys distinct. Reading a key that is absent gives \<^verbatim>\<open>undefined\<close>,
  unless the key is one of the names that every object inherits from
  \<^verbatim>\<open>Object.prototype\<close>; writing a key that is present keeps its place.

  The inherited properties are modelled where the program can meet them: an own property
  \<^verbatim>\<open>hasOwnProperty\<close> breaks the two calls of that method, an assignment of a number or
  a string to \<^verbatim>\<open>__proto__\<close> adds no property, and a cost bucket whose key is an
  inherited name starts from the inherited value. An inherited value found in the tag
  map has no own keys, as an absent one.
\<close>

type_synonym 'v object = "(string \<times> 'v) list"

fun obj_set :: "'v object \<Rightarrow> string \<Rightarrow> 'v \<Rightarrow> 'v object" where
  "obj_set [] k v = [(k, v)]"
| "obj_set ((k', v') # kvs) k v =
     (if k' = k then (k, v) # kvs else (k', v') # obj_set kvs k v)"

definition inherited_names :: "string list" where
  "inherited_names =
     [''constructor'', ''__defineGetter__'', ''__defineSetter__'', ''hasOwnProperty'',
      ''__lookupGetter__'', ''__lookupSetter__'', ''isPrototypeOf'',
      ''propertyIsEnumerable'', ''toString'', ''valueOf'', ''__proto__'',
      ''toLocaleString'']"

text \<open>
  \<^verbatim>\<open>Object.keys\<close> and \<^verbatim>\<open>Object.entries\<close> list the keys that are array indices
  first, in ascending numeric order, and then the other keys in insertion order. An array
  index is the canonical decimal form of an integer from 0 to \<open>2\<^sup>3\<^sup>2 - 2\<close>.
\<close>

definition is_digit :: "char \<Rightarrow> bool" where
  "is_digit c = (c \<in> set ''0123456789'')"

definition digit_val :: "char \<Rightarrow> nat" where
  "digit_val c = of_char c - 48"

definition decimal_val :: "string \<Rightarrow> nat" where
  "decimal_val s = foldl (\<lambda>n c. 10 * n + digit_val c) 0 s"

definition is_array_index :: "string \<Rightarrow> bool" where
  "is_array_index s =
     (s \<noteq> [] \<and> list_all is_digit s \<and> (s = ''0'' \<or> hd s \<noteq> CHR ''0'')
      \<and> length s \<le> 10 \<and> decimal_val s \<le> 4294967294)"

fun insert_index :: "(string \<times> 'v) \<Rightarrow> 'v object \<Rightarrow> 'v object" where
  "insert_index e [] = [e]"
| "insert_index e (e' # es) =
     (if decimal_val (fst e) < decimal_val (fst e') then e # e' # es
      else e' # insert_index e es)"

definition Object_entries :: "'v object \<Rightarrow> (string \<times> 'v) list" where
  "Object_entries obj =
     foldr insert_index (filter (\<lambda>e. is_array_index (fst e)) obj) []
     @ filter (\<lambda>e. \<not> is_array_index (fst e)) obj"

definition Object_keys :: "'v object \<Rightarrow> string list" where
  "Object_keys obj = map fst (Object_entries obj)"

section \<open>Arrays\<close>

text \<open>
  \<^verbatim>\<open>Array.prototype.sort(cmp)\<close>. A comparator value that is \<open>NaN\<close> counts as 0. The
  comparator is consistent on the elements of the array when, as the standard puts it,
  every element equals itself, equality is symmetric and transitive, and so are less-than
  and greater-than transitive. Then the result is the stable sort of the array, which is
  what inserting the elements one after the other, each behind the elements it does not
  precede, computes. For an inconsistent comparator the standard leaves the order to the
  engine; the result is a permutation of the array all the same, so an answer of
  \<open>sortOrder\<close> that is not a permutation of the indices is read as the identity.
\<close>

fun cmp_sign :: "number \<Rightarrow> int" where
  "cmp_sign NaN = 0"
| "cmp_sign (Fin x) = (if x < 0 then - 1 else if x = 0 then 0 else 1)"
| "cmp_sign PInf = 1"
| "cmp_sign NInf = - 1"

definition negative :: "number \<Rightarrow> bool" where
  "negative v = (cmp_sign v < 0)"

definition consistent :: "('a \<Rightarrow> 'a \<Rightarrow> number) \<Rightarrow> 'a list \<Rightarrow> bool" where
  "consistent cmp xs =
     list_all (\<lambda>a.
       cmp_sign (cmp a a) = 0
       \<and> list_all (\<lambda>b.
           (cmp_sign (cmp a b) \<noteq> 0 \<or> cmp_sign (cmp b a) = 0)
           \<and> list_all (\<lambda>c.
               (cmp_sign (cmp a b) \<noteq> 0 \<or> cmp_sign (cmp b c) \<noteq> 0 \<or> cmp_sign (cmp a c) = 0)
               \<and> (0 \<le> cmp_sign (cmp a b) \<or> 0 \<le> cmp_sign (cmp b c) \<or> cmp_sign (cmp a c) < 0)
               \<and> (cmp_sign (cmp a b) \<le> 0 \<or> cmp_sign (cmp b c) \<le> 0 \<or> 0 < cmp_sign (cmp a c)))
             xs) xs) xs"

fun insert_sorted :: "('a \<Rightarrow> 'a \<Rightarrow> number) \<Rightarrow> 'a \<Rightarrow> 'a list \<Rightarrow> 'a list" where
  "insert_sorted cmp x [] = [x]"
| "insert_sorted cmp x (y # ys) =
     (if negative (cmp x y) then x # y # ys else y # insert_sorted cmp x ys)"

definition stable_sort :: "('a \<Rightarrow> 'a \<Rightarrow> number) \<Rightarrow> 'a list \<Rightarrow> 'a list" where
  "stable_sort cmp xs = foldl (\<lambda>acc x. insert_sorted cmp x acc) [] xs"

definition Array_sort :: "engine \<Rightarrow> ('a \<Rightarrow> 'a \<Rightarrow> number) \<Rightarrow> 'a list \<Rightarrow> 'a list" where
  "Array_sort eng cmp xs =
     (if consistent cmp xs then stable_sort cmp xs
      else
        let idx = sortOrder eng (\<lambda>i j. cmp (xs ! i) (xs ! j)) (length xs)
        in if sort idx = [0..<length xs] then map (\<lambda>i. xs ! i) idx else xs)"

text \<open>\<^verbatim>\<open>xs.join(sep)\<close> on strings, and \<^verbatim>\<open>s.split(c)\<close> for a separator of one character.\<close>

fun join :: "string \<Rightarrow> string list \<Rightarrow> string" where
  "join sep [] = []"
| "join sep [x] = x"
| "join sep (x # y # ys) = x @ sep @ join sep (y # ys)"

fun split :: "char \<Rightarrow> string \<Rightarrow> string list" where
  "split c [] = [[]]"
| "split c (x # xs) =
     (if x = c then [] # split c xs
      else (case split c xs of p # ps \<Rightarrow> (x # p) # ps | [] \<Rightarrow> [[x]]))"

text \<open>\<^verbatim>\<open>s.substring(i, j)\<close> for \<open>i \<le> j\<close>; indices beyond the end are clamped to it.\<close>

definition substring :: "string \<Rightarrow> nat \<Rightarrow> nat \<Rightarrow> string" where
  "substring s i j = take (j - i) (drop i s)"

section \<open>Request parameters\<close>

record event =
  body :: "string option"
  queryStringParameters :: "(string \<rightharpoonup> string) option"

record params =
  start_date :: jsval
  end_date :: jsval
  start_time :: jsval
  end_time :: jsval
  subscription_id :: jsval
  include_tags :: bool
  granularity :: jsval

text \<open>\<^verbatim>\<open>body.name\<close> and \<^verbatim>\<open>queryParams.name\<close>: the own property, or \<^verbatim>\<open>undefined\<close>.\<close>

definition body_get :: "(string \<times> jsval) list \<Rightarrow> string \<Rightarrow> jsval" where
  "body_get b k = (case map_of b k of None \<Rightarrow> Undefined | Some v \<Rightarrow> v)"

definition query_get :: "(string \<rightharpoonup> string) \<Rightarrow> string \<Rightarrow> jsval" where
  "query_get q k = (case q k of None \<Rightarrow> Undefined | Some s \<Rightarrow> String s)"

definition env_get :: "string option \<Rightarrow> jsval" where
  "env_get v = (case v of None \<Rightarrow> Undefined | Some s \<Rightarrow> String s)"

text \<open>
  \<^verbatim>\<open>getRequestParameters(event)\<close>. The second argument is
  \<^verbatim>\<open>process.env.AZURE_SUBSCRIPTION_ID\<close>. A body that does not parse is the empty
  object. A body that parses to \<^verbatim>\<open>null\<close> makes the first property read throw, and an
  own property \<^verbatim>\<open>hasOwnProperty\<close> of the body makes the call of that name throw; on a
  primitive or an array every property the function reads is \<^verbatim>\<open>undefined\<close>.
\<close>

definition parse_body :: "engine \<Rightarrow> event \<Rightarrow> json_body" where
  "parse_body eng ev =
     (case body ev of
        None \<Rightarrow> BObject []
      | Some s \<Rightarrow>
          if s = [] then BObject []
          else (case JSON_parse eng s of None \<Rightarrow> BObject [] | Some b \<Rightarrow> b))"

definition resolve :: "engine \<Rightarrow> string option \<Rightarrow> (string \<times> jsval) list \<Rightarrow> bool
    \<Rightarrow> (string \<rightharpoonup> string) \<Rightarrow> params" where
  "resolve eng env b has_tags q =
     \<lparr> start_date = js_or (body_get b ''start_date'') (query_get q ''start_date''),
       end_date = js_or (body_get b ''end_date'') (query_get q ''end_date''),
       start_time = js_or (js_or (body_get b ''start_time'') (query_get q ''start_time''))
                      (String ''00:00:00''),
       end_time = js_or (js_or (body_get b ''end_time'') (query_get q ''end_time''))
                    (String ''23:59:59''),
       subscription_id =
         js_or (js_or (body_get b ''subscription_id'') (query_get q ''subscription_id''))
           (env_get env),
       include_tags =
         (if has_tags
          then body_get b ''include_tags'' = Bool True
               \<or> body_get b ''include_tags'' = String ''true''
          else if truthy (query_get q ''include_tags'')
          then query_get q ''include_tags'' = String ''true''
          else True),
       granularity = js_or (js_or (body_get b ''granularity'') (query_get q ''granularity''))
                       (String ''Daily'') \<rparr>"

definition getRequestParameters :: "engine \<Rightarrow> string option \<Rightarrow> event \<Rightarrow> error + params" where
  "getRequestParameters eng env ev =
     (let queryParams = (case queryStringParameters ev of None \<Rightarrow> Map.empty | Some q \<Rightarrow> q)
      in case parse_body eng ev of
           BNull \<Rightarrow> Inl TypeError
         | BPrimitive \<Rightarrow> Inr (resolve eng env [] False queryParams)
         | BObject b \<Rightarrow>
             if map_of b ''hasOwnProperty'' \<noteq> None then Inl TypeError
             else Inr (resolve eng env b (map_of b ''include_tags'' \<noteq> None) queryParams))"

section \<open>Validation\<close>

text \<open>
  The regular expression
  \<^verbatim>\<open>/^([0-1]?[0-9]|2[0-3]):[0-5][0-9]:[0-5][0-9]$/\<close>: an hour of one digit, or of two
  digits from 00 to 23, then minutes and seconds of two digits each.
\<close>

definition hour_ok :: "string \<Rightarrow> bool" where
  "hour_ok h =
     (case h of
        [a] \<Rightarrow> is_digit a
      | [a, b] \<Rightarrow> (a \<in> set ''01'' \<and> is_digit b) \<or> (a = CHR ''2'' \<and> b \<in> set ''0123'')
      | _ \<Rightarrow> False)"

definition sixty_ok :: "string \<Rightarrow> bool" where
  "sixty_ok m = (case m of [a, b] \<Rightarrow> a \<in> set ''012345'' \<and> is_digit b | _ \<Rightarrow> False)"

definition timeRegex_test :: "string \<Rightarrow> bool" where
  "timeRegex_test s =
     (case split CHR '':'' s of
        [h, m, sec] \<Rightarrow> hour_ok h \<and> sixty_ok m \<and> sixty_ok sec
      | _ \<Rightarrow> False)"

definition msg_start_date :: string where
  "msg_start_date = ''Missing required parameter: start_date (format: YYYY-MM-DD)''"

definition msg_end_date :: string where
  "msg_end_date = ''Missing required parameter: end_date (format: YYYY-MM-DD)''"

definition msg_subscription_id :: string where
  "msg_subscription_id = ''Missing required parameter: subscription_id''"

definition msg_date_format :: string where
  "msg_date_format = ''Invalid date format. Use YYYY-MM-DD''"

definition msg_date_order :: string where
  "msg_date_order = ''end_date must be greater than or equal to start_date''"

definition msg_date_range :: string where
  "msg_date_range = ''Date range cannot exceed 365 days''"

definition msg_time_format :: string where
  "msg_time_format = ''Invalid time format. Use HH:MM:SS (e.g., 14:30:00)''"

definition msg_granularity :: string where
  "msg_granularity =
     ''granularity must be '' @ [CHR 0x27] @ ''Daily'' @ [CHR 0x27] @ '' or ''
     @ [CHR 0x27] @ ''Monthly'' @ [CHR 0x27]"

text \<open>The whole days from \<open>start\<close> to \<open>end\<close>, both in milliseconds.\<close>

definition daysDiff :: "engine \<Rightarrow> number \<Rightarrow> number \<Rightarrow> number" where
  "daysDiff eng start end' =
     Math_floor (ndiv (arithmetic eng) (nsub (arithmetic eng) end' start)
       (Fin (1000 * 60 * 60 * 24)))"

text \<open>
  \<^verbatim>\<open>validateParameters(params)\<close>: \<open>None\<close> is \<^verbatim>\<open>null\<close>. Nothing inside the \<^verbatim>\<open>try\<close>
  block throws on the values modelled, so its \<^verbatim>\<open>catch\<close> is never entered.
\<close>

definition validateParameters :: "engine \<Rightarrow> params \<Rightarrow> string option" where
  "validateParameters eng p =
     (if \<not> truthy (start_date p) then Some msg_start_date
      else if \<not> truthy (end_date p) then Some msg_end_date
      else if \<not> truthy (subscription_id p) then Some msg_subscription_id
      else
        let start = DateTimeValue eng (start_date p);
            end' = DateTimeValue eng (end_date p)
        in if isNaN start \<or> isNaN end' then Some msg_date_format
           else if nless end' start then Some msg_date_order
           else if nless (Fin 365) (daysDiff eng start end') then Some msg_date_range
           else if \<not> timeRegex_test (ToString eng (start_time p))
                   \<or> \<not> timeRegex_test (ToString eng (end_time p))
           then Some msg_time_format
           else if \<not> (granularity p = String ''Daily'' \<or> granularity p = String ''Monthly'')
           then Some msg_granularity
           else None)"

section \<open>Cost records\<close>

text \<open>
  The cost response: the names of \<^verbatim>\<open>properties.columns\<close> and the rows, each an array
  of cells. The tag map gives for a resource id the tags of the resource, an object of
  strings.
\<close>

record costResponse =
  columns :: "string list"
  rows :: "jsval list list"

type_synonym tagMap = "string \<rightharpoonup> string object"

record costItem =
  Date :: string
  Cost_INR :: number
  ServiceName :: jsval
  ResourceName :: string
  ResourceId :: jsval
  ResourceGroupName :: jsval
  ResourceType :: jsval
  Tags :: string

text \<open>
  \<^verbatim>\<open>columnMap[col.name] = idx\<close> for every column, a later column of the same name
  replacing an earlier one. The assignment to \<^verbatim>\<open>__proto__\<close> of a number adds no
  property.
\<close>

definition build_columnMap :: "string list \<Rightarrow> (string \<rightharpoonup> nat)" where
  "build_columnMap cols =
     fold (\<lambda>(idx, name) m. if name = ''__proto__'' then m else m(name \<mapsto> idx))
       (enumerate 0 cols) Map.empty"

text \<open>
  \<^verbatim>\<open>row[columnMap.Name]\<close>: \<^verbatim>\<open>undefined\<close> when the column is absent or the row is
  too short.
\<close>

definition row_at :: "jsval list \<Rightarrow> nat option \<Rightarrow> jsval" where
  "row_at row i =
     (case i of None \<Rightarrow> Undefined | Some n \<Rightarrow> if n < length row then row ! n else Undefined)"

text \<open>
  The date of a row. \<^verbatim>\<open>String\<close> and \<^verbatim>\<open>substring\<close> do not throw, so the
  \<^verbatim>\<open>catch\<close> block that would set \<^verbatim>\<open>'Unknown'\<close> is never entered.
\<close>

definition decodeDate :: "string \<Rightarrow> string" where
  "decodeDate dateStr =
     (let year = substring dateStr 0 4;
          month = substring dateStr 4 6;
          day = substring dateStr 6 8
      in day @ ''-'' @ month @ ''-'' @ year)"

definition dateValue_of :: "engine \<Rightarrow> (string \<rightharpoonup> nat) \<Rightarrow> jsval list \<Rightarrow> string" where
  "dateValue_of eng columnMap row =
     (if columnMap ''UsageDate'' \<noteq> None
      then decodeDate (ToString eng (row_at row (columnMap ''UsageDate'')))
      else ''Unknown'')"

definition resourceId_of :: "(string \<rightharpoonup> nat) \<Rightarrow> jsval list \<Rightarrow> jsval" where
  "resourceId_of columnMap row =
     (if columnMap ''ResourceId'' \<noteq> None then row_at row (columnMap ''ResourceId'')
      else String [])"

text \<open>
  The resource name. A resource id that is truthy and not a string has no method
  \<^verbatim>\<open>split\<close>: the call throws.
\<close>

definition resourceName_of :: "jsval \<Rightarrow> error + string" where
  "resourceName_of resourceId =
     (if truthy resourceId
      then (case resourceId of
              String s \<Rightarrow>
                (let parts = split CHR ''/'' s
                 in if length parts > 0 then Inr (parts ! (length parts - 1)) else Inr ''N/A'')
            | _ \<Rightarrow> Inl TypeError)
      else Inr ''N/A'')"

definition tagsStr_of :: "engine \<Rightarrow> tagMap \<Rightarrow> params \<Rightarrow> jsval \<Rightarrow> string" where
  "tagsStr_of eng resourceTags p resourceId =
     (if truthy resourceId \<and> include_tags p
      then (let tagsDict = (case resourceTags (ToString eng resourceId) of
                              None \<Rightarrow> [] | Some t \<Rightarrow> t)
            in if length (Object_keys tagsDict) > 0
               then join ''; '' (map (\<lambda>(k, v). k @ ''='' @ v) (Object_entries tagsDict))
               else ''No tags'')
      else ''No tags'')"

definition cost_of :: "engine \<Rightarrow> (string \<rightharpoonup> nat) \<Rightarrow> jsval list \<Rightarrow> number" where
  "cost_of eng columnMap row =
     round2 (arithmetic eng) (ToNumber eng (row_at row (columnMap ''PreTaxCost'')))"

definition column_or_NA :: "(string \<rightharpoonup> nat) \<Rightarrow> string \<Rightarrow> jsval list \<Rightarrow> jsval" where
  "column_or_NA columnMap name row =
     (if columnMap name \<noteq> None then row_at row (columnMap name) else String ''N/A'')"

text \<open>
  One turn of the loop over the rows. A column called \<^verbatim>\<open>hasOwnProperty\<close> replaces
  the method of that name by a number, and the first test of the loop throws.
\<close>

definition processRow :: "engine \<Rightarrow> (string \<rightharpoonup> nat) \<Rightarrow> tagMap \<Rightarrow> params \<Rightarrow> jsval list
    \<Rightarrow> error + costItem" where
  "processRow eng columnMap resourceTags p row =
     (if columnMap ''hasOwnProperty'' \<noteq> None then Inl TypeError
      else
        let dateValue = dateValue_of eng columnMap row;
            resourceId = resourceId_of columnMap row
        in case resourceName_of resourceId of
             Inl e \<Rightarrow> Inl e
           | Inr resourceName \<Rightarrow>
               Inr \<lparr> Date = dateValue,
                     Cost_INR = cost_of eng columnMap row,
                     ServiceName = column_or_NA columnMap ''ServiceName'' row,
                     ResourceName = resourceName,
                     ResourceId = resourceId,
                     ResourceGroupName = column_or_NA columnMap ''ResourceGroupName'' row,
                     ResourceType = column_or_NA columnMap ''ResourceType'' row,
                     Tags = tagsStr_of eng resourceTags p resourceId \<rparr>)"

text \<open>The loop: the state is \<^verbatim>\<open>detailedCosts\<close> and \<^verbatim>\<open>totalCost\<close>.\<close>

fun processRows :: "engine \<Rightarrow> (string \<rightharpoonup> nat) \<Rightarrow> tagMap \<Rightarrow> params \<Rightarrow> jsval list list
    \<Rightarrow> costItem list \<times> number \<Rightarrow> error + costItem list \<times> number" where
  "processRows eng columnMap resourceTags p [] acc = Inr acc"
| "processRows eng columnMap resourceTags p (row # rest) (detailedCosts, totalCost) =
     (case processRow eng columnMap resourceTags p row of
        Inl e \<Rightarrow> Inl e
      | Inr costItem \<Rightarrow>
          processRows eng columnMap resourceTags p rest
            (detailedCosts @ [costItem],
             nadd (arithmetic eng) totalCost (Cost_INR costItem)))"

text \<open>The comparator of the sort: by date, and by descending cost within a date.\<close>

definition compareCostItems :: "engine \<Rightarrow> costItem \<Rightarrow> costItem \<Rightarrow> number" where
  "compareCostItems eng a b =
     (if Date a \<noteq> Date b then Fin (of_int (localeCompare eng (Date a) (Date b)))
      else nsub (arithmetic eng) (Cost_INR b) (Cost_INR a))"

section \<open>Summary\<close>

record summaryStatistics =
  total_cost :: number
  currency :: string
  average_daily_cost :: number
  unique_services :: nat
  unique_resources :: nat
  unique_resource_groups :: nat
  top_services :: "(string \<times> number) list"
  top_resources :: "(string \<times> number) list"
  daily_breakdown :: "(string \<times> number) list"

text \<open>
  \<^verbatim>\<open>costs[key] = (costs[key] || 0) + cost\<close>. The value of a bucket is a number, or,
  when the key is an inherited name, a string: the inherited function is truthy, and
  adding a number to it concatenates the two as strings. Such a string starts with the
  source text of a function, so it converts to \<open>NaN\<close>. Reading \<^verbatim>\<open>__proto__\<close> gives
  the prototype, and writing the concatenated string to it adds no property.
\<close>

datatype amount = Amount number | Text

fun amount_number :: "amount \<Rightarrow> number" where
  "amount_number (Amount n) = n"
| "amount_number Text = NaN"

definition add_cost :: "engine \<Rightarrow> amount object \<Rightarrow> string \<Rightarrow> number \<Rightarrow> amount object" where
  "add_cost eng costs key cost =
     (case map_of costs key of
        Some (Amount v) \<Rightarrow>
          obj_set costs key
            (Amount (nadd (arithmetic eng) (if number_truthy v then v else Fin 0) cost))
      | Some Text \<Rightarrow> obj_set costs key Text
      | None \<Rightarrow>
          if key = ''__proto__'' then costs
          else if key \<in> set inherited_names then obj_set costs key Text
          else obj_set costs key (Amount (nadd (arithmetic eng) (Fin 0) cost)))"

definition serviceCosts_of :: "engine \<Rightarrow> costItem list \<Rightarrow> amount object" where
  "serviceCosts_of eng detailedCosts =
     foldl (\<lambda>costs item.
              if ServiceName item \<noteq> String ''N/A''
              then add_cost eng costs (ToString eng (ServiceName item)) (Cost_INR item)
              else costs) [] detailedCosts"

definition resourceCosts_of :: "engine \<Rightarrow> costItem list \<Rightarrow> amount object" where
  "resourceCosts_of eng detailedCosts =
     foldl (\<lambda>costs item.
              if ResourceName item \<noteq> ''N/A''
              then add_cost eng costs
                     (ResourceName item @ '' ('' @ ToString eng (ServiceName item) @ '')'')
                     (Cost_INR item)
              else costs) [] detailedCosts"

definition dailyCosts_of :: "engine \<Rightarrow> costItem list \<Rightarrow> amount object" where
  "dailyCosts_of eng detailedCosts =
     foldl (\<lambda>costs item. add_cost eng costs (Date item) (Cost_INR item)) [] detailedCosts"

text \<open>
  The comparators of the summary, and \<^verbatim>\<open>Math.round(cost * 100) / 100\<close> on the value of
  an entry.
\<close>

definition by_cost_desc :: "engine \<Rightarrow> string \<times> amount \<Rightarrow> string \<times> amount \<Rightarrow> number" where
  "by_cost_desc eng a b =
     nsub (arithmetic eng) (amount_number (snd b)) (amount_number (snd a))"

definition by_key :: "engine \<Rightarrow> string \<times> amount \<Rightarrow> string \<times> amount \<Rightarrow> number" where
  "by_key eng a b = Fin (of_int (localeCompare eng (fst a) (fst b)))"

definition rounded :: "engine \<Rightarrow> string \<times> amount \<Rightarrow> string \<times> number" where
  "rounded eng e = (fst e, round2 (arithmetic eng) (amount_number (snd e)))"

definition createSummary :: "engine \<Rightarrow> costItem list \<Rightarrow> number \<Rightarrow> params \<Rightarrow> summaryStatistics" where
  "createSummary eng detailedCosts totalCost p =
     (if length detailedCosts = 0
      then \<lparr> total_cost = Fin 0, currency = ''INR'', average_daily_cost = Fin 0,
             unique_services = 0, unique_resources = 0, unique_resource_groups = 0,
             top_services = [], top_resources = [], daily_breakdown = [] \<rparr>
      else
        let start = DateTimeValue eng (start_date p);
            end' = DateTimeValue eng (end_date p);
            days = nadd (arithmetic eng) (daysDiff eng start end') (Fin 1);
            uniqueServices =
              length (remdups (map ServiceName
                (filter (\<lambda>item. ServiceName item \<noteq> String ''N/A'') detailedCosts)));
            uniqueResources =
              length (remdups (map ResourceId
                (filter (\<lambda>item. truthy (ResourceId item)) detailedCosts)));
            uniqueResourceGroups =
              length (remdups (map ResourceGroupName
                (filter (\<lambda>item. ResourceGroupName item \<noteq> String ''N/A'') detailedCosts)));
            topServices =
              map (rounded eng) (take 5
                (Array_sort eng (by_cost_desc eng)
                   (Object_entries (serviceCosts_of eng detailedCosts))));
            topResources =
              map (rounded eng) (take 10
                (Array_sort eng (by_cost_desc eng)
                   (Object_entries (resourceCosts_of eng detailedCosts))));
            dailyBreakdown =
              map (rounded eng)
                (Array_sort eng (by_key eng) (Object_entries (dailyCosts_of eng detailedCosts)))
        in \<lparr> total_cost = round2 (arithmetic eng) totalCost, currency = ''INR'',
             average_daily_cost =
               (if nless (Fin 0) days
                then round2 (arithmetic eng) (ndiv (arithmetic eng) totalCost days)
                else Fin 0),
             unique_services = uniqueServices,
             unique_resources = uniqueResources,
             unique_resource_groups = uniqueResourceGroups,
             top_services = topServices,
             top_resources = topResources,
             daily_breakdown = dailyBreakdown \<rparr>)"

section \<open>The response\<close>

record response =
  summary :: summaryStatistics
  detailed_costs :: "costItem list"
  metadata :: "jsval object"

definition processCostData :: "engine \<Rightarrow> costResponse \<Rightarrow> tagMap \<Rightarrow> params
    \<Rightarrow> error + response" where
  "processCostData eng costResp resourceTags p =
     (let columnMap = build_columnMap (columns costResp)
      in case processRows eng columnMap resourceTags p (rows costResp) ([], Fin 0) of
           Inl e \<Rightarrow> Inl e
         | Inr (unsorted, totalCost) \<Rightarrow>
             let detailedCosts = Array_sort eng (compareCostItems eng) unsorted
             in Inr \<lparr> summary = createSummary eng detailedCosts totalCost p,
                      detailed_costs = detailedCosts,
                      metadata =
                        [(''start_date'', start_date p),
                         (''end_date'', end_date p),
                         (''start_time'', start_time p),
                         (''end_time'', end_time p),
                         (''subscription_id'', subscription_id p),
                         (''granularity'', granularity p),
                         (''total_records'', Number (Fin (of_nat (length detailedCosts)))),
                         (''generated_at'', String (toISOString_now eng))] \<rparr>)"

section \<open>Notions of the specification\<close>

text \<open>
  The validation rules in the order in which the specification lists them, each with its
  message, and the message of the first rule that a parameter set violates. A date is
  unparseable when its time value is \<open>NaN\<close>; the span of two dates is the number of whole
  days between them.
\<close>

definition validation_rules :: "engine \<Rightarrow> ((params \<Rightarrow> bool) \<times> string) list" where
  "validation_rules eng =
     [(\<lambda>p. \<not> truthy (start_date p), msg_start_date),
      (\<lambda>p. \<not> truthy (end_date p), msg_end_date),
      (\<lambda>p. \<not> truthy (subscription_id p), msg_subscription_id),
      (\<lambda>p. isNaN (DateTimeValue eng (start_date p)) \<or> isNaN (DateTimeValue eng (end_date p)),
       msg_date_format),
      (\<lambda>p. nless (DateTimeValue eng (end_date p)) (DateTimeValue eng (start_date p)),
       msg_date_order),
      (\<lambda>p. nless (Fin 365)
              (daysDiff eng (DateTimeValue eng (start_date p)) (DateTimeValue eng (end_date p))),
       msg_date_range),
      (\<lambda>p. \<not> (timeRegex_test (ToString eng (start_time p))
               \<and> timeRegex_test (ToString eng (end_time p))),
       msg_time_format),
      (\<lambda>p. granularity p \<noteq> String ''Daily'' \<and> granularity p \<noteq> String ''Monthly'',
       msg_granularity)]"

definition first_violated :: "engine \<Rightarrow> params \<Rightarrow> string option" where
  "first_violated eng p = map_option snd (find (\<lambda>rule. fst rule p) (validation_rules eng))"

text \<open>Rounding to two decimal places, a tie going away from zero.\<close>

definition round_half_away_from_zero :: "rat \<Rightarrow> rat" where
  "round_half_away_from_zero x = sgn x * of_int \<lfloor>\<bar>x\<bar> * 100 + 1 / 2\<rfloor> / 100"

text \<open>
  The sum of a list of numbers, added from the left as a loop adds them; \<^verbatim>\<open>a <= b\<close>
  on numbers; and the numbers that are finite.
\<close>

definition nsum :: "arithmetic \<Rightarrow> number list \<Rightarrow> number" where
  "nsum ar xs = foldl (nadd ar) (Fin 0) xs"

definition nle :: "number \<Rightarrow> number \<Rightarrow> bool" where
  "nle a b = (a \<noteq> NaN \<and> b \<noteq> NaN \<and> \<not> nless b a)"

fun finite_number :: "number \<Rightarrow> bool" where
  "finite_number (Fin x) = True"
| "finite_number a = False"

text \<open>The summary of no records.\<close>

definition empty_summary :: summaryStatistics where
  "empty_summary =
     \<lparr> total_cost = Fin 0, currency = ''INR'', average_daily_cost = Fin 0,
       unique_services = 0, unique_resources = 0, unique_resource_groups = 0,
       top_services = [], top_resources = [], daily_breakdown = [] \<rparr>"

text \<open>
  For the proofs: the rational of a finite number, and the finite numbers that are whole
  multiples of one hundredth.
\<close>

fun the_fin :: "number \<Rightarrow> rat" where
  "the_fin (Fin x) = x"
| "the_fin a = 0"

fun cents :: "number \<Rightarrow> bool" where
  "cents (Fin x) = (of_int \<lfloor>x * 100\<rfloor> = x * 100)"
| "cents a = False"

fun amount_cents :: "amount \<Rightarrow> bool" where
  "amount_cents (Amount n) = cents n"
| "amount_cents Text = False"

section \<open>Examples\<close>

text \<open>
  An engine for the examples. Its arithmetic is that of JavaScript. It agrees with a
  JavaScript engine on the arguments that the examples give it: natural numbers are
  printed in decimal, \<^verbatim>\<open>Infinity\<close> and \<^verbatim>\<open>-Infinity\<close> denote the infinities and the
  string \<^verbatim>\<open>x\<close> no number (no example converts a numeral), strings of digits and hyphens
  are compared character by character, the two dates are UTC midnights in milliseconds,
  and the three request bodies parse to the objects they denote. An array whose
  comparator is inconsistent is left as it is, which is what V8 does to the array of
  the example: there every comparison of neighbours is \<open>NaN\<close>, so that the array counts
  as one ascending run. The second engine differs in its arithmetic only.
\<close>

function decimal_digits :: "nat \<Rightarrow> string" where
  "decimal_digits n =
     (if n < 10 then [''0123456789'' ! n]
      else decimal_digits (n div 10) @ [''0123456789'' ! (n mod 10)])"
  by pat_completeness auto
termination
  by (relation "measure id") auto

definition quoted :: "string \<Rightarrow> string" where
  "quoted s = CHR 0x22 # s @ [CHR 0x22]"

definition empty_date_body :: string where
  "empty_date_body = ''{'' @ quoted ''start_date'' @ '': '' @ quoted [] @ ''}''"

definition march_body :: string where
  "march_body =
     ''{'' @ quoted ''start_date'' @ '': '' @ quoted ''2024-03-01'' @ '', ''
     @ quoted ''include_tags'' @ '': false}''"

definition shadowing_body :: string where
  "shadowing_body =
     ''{'' @ quoted ''start_date'' @ '': '' @ quoted ''2024-03-01'' @ '', ''
     @ quoted ''hasOwnProperty'' @ '': 1}''"

definition example_engine :: engine where
  "example_engine =
     \<lparr> arithmetic = Binary64,
       NumberToString =
         (\<lambda>x. if x = of_int \<lfloor>x\<rfloor> \<and> 0 \<le> x then decimal_digits (nat \<lfloor>x\<rfloor>) else ''?''),
       StringToNumber =
         (\<lambda>s. if s = ''Infinity'' then PInf else if s = ''-Infinity'' then NInf else NaN),
       localeCompare = (\<lambda>a b. if a < b then - 1 else if a = b then 0 else 1),
       DateTimeValue =
         (\<lambda>v. if v = String ''2024-01-01'' then Fin 1704067200000
              else if v = String ''2024-01-31'' then Fin 1706659200000
              else NaN),
       JSON_parse =
         (\<lambda>s. if s = empty_date_body then Some (BObject [(''start_date'', String [])])
              else if s = march_body
              then Some (BObject [(''start_date'', String ''2024-03-01''),
                                  (''include_tags'', Bool False)])
              else if s = shadowing_body
              then Some (BObject [(''start_date'', String ''2024-03-01''),
                                  (''hasOwnProperty'', Number (Fin 1))])
              else None),
       toISOString_now = ''2024-02-01T00:00:00.000Z'',
       sortOrder = (\<lambda>cmp n. [0..<n]) \<rparr>"

definition exact_engine :: engine where
  "exact_engine = example_engine \<lparr> arithmetic := Exact \<rparr>"

definition example_params :: params where
  "example_params =
     \<lparr> start_date = String ''2024-01-01'', end_date = String ''2024-01-31'',
       start_time = String ''00:00:00'', end_time = String ''23:59:59'',
       subscription_id = String ''sub-1'', include_tags = False,
       granularity = String ''Daily'' \<rparr>"

definition tagged_params :: params where
  "tagged_params = example_params \<lparr> include_tags := True \<rparr>"

definition invalid_params :: params where
  "invalid_params =
     \<lparr> start_date = Undefined, end_date = String [],
       start_time = String ''25:00:00'', end_time = String ''23:59:59'',
       subscription_id = Undefined, include_tags = True,
       granularity = String ''Weekly'' \<rparr>"

definition example_query :: "string \<rightharpoonup> string" where
  "example_query =
     [''start_date'' \<mapsto> ''2024-01-01'', ''end_date'' \<mapsto> ''2024-01-31'',
      ''include_tags'' \<mapsto> ''true'']"

definition empty_date_event :: event where
  "empty_date_event =
     \<lparr> body = Some empty_date_body, queryStringParameters = Some example_query \<rparr>"

definition march_event :: event where
  "march_event = \<lparr> body = Some march_body, queryStringParameters = Some example_query \<rparr>"

definition shadowing_event :: event where
  "shadowing_event =
     \<lparr> body = Some shadowing_body, queryStringParameters = Some example_query \<rparr>"

text \<open>
  The doubles that \<^verbatim>\<open>JSON.parse\<close> reads from the numerals \<^verbatim>\<open>10.005\<close>,
  \<^verbatim>\<open>1.005\<close>, \<^verbatim>\<open>0.015\<close> and \<^verbatim>\<open>1e308\<close>: none of the four decimals is a
  double. The first and the last lie above their decimals, the other two below.
\<close>

definition double_10_005 :: rat where
  "double_10_005 = 5632314283980227 / 562949953421312"

definition double_1_005 :: rat where
  "double_1_005 = 1131529406376837 / 1125899906842624"

definition double_0_015 :: rat where
  "double_0_015 = 1080863910568919 / 72057594037927936"

definition double_1e308 :: rat where
  "double_1e308 = 5010420900022432 * 2 ^ 971"

text \<open>
  The example of the specification: two rows of 10.005 on one day and a row of 5 on the
  next, tags not included.
\<close>

definition example_costs :: costResponse where
  "example_costs =
     \<lparr> columns = [''PreTaxCost'', ''UsageDate'', ''ServiceName'', ''ResourceId''],
       rows = [[Number (Fin double_10_005), Number (Fin 20240101), String ''VM'', String ''/r1''],
               [Number (Fin double_10_005), Number (Fin 20240101), String ''VM'', String ''/r1''],
               [Number (Fin 5), Number (Fin 20240102), String ''Storage'', String ''/r2'']] \<rparr>"

definition vm_item :: costItem where
  "vm_item =
     \<lparr> Date = ''01-01-2024'', Cost_INR = binary64 (1001 / 100), ServiceName = String ''VM'',
       ResourceName = ''r1'', ResourceId = String ''/r1'',
       ResourceGroupName = String ''N/A'', ResourceType = String ''N/A'',
       Tags = ''No tags'' \<rparr>"

definition storage_item :: costItem where
  "storage_item =
     \<lparr> Date = ''02-01-2024'', Cost_INR = Fin 5, ServiceName = String ''Storage'',
       ResourceName = ''r2'', ResourceId = String ''/r2'',
       ResourceGroupName = String ''N/A'', ResourceType = String ''N/A'',
       Tags = ''No tags'' \<rparr>"

definition example_metadata :: "jsval object" where
  "example_metadata =
     [(''start_date'', String ''2024-01-01''),
      (''end_date'', String ''2024-01-31''),
      (''start_time'', String ''00:00:00''),
      (''end_time'', String ''23:59:59''),
      (''subscription_id'', String ''sub-1''),
      (''granularity'', String ''Daily''),
      (''total_records'', Number (Fin 3)),
      (''generated_at'', String ''2024-02-01T00:00:00.000Z'')]"

text \<open>
  A response with tags. The later day of the earlier month comes last in the result:
  \<^verbatim>\<open>02-02-2024\<close> is before \<^verbatim>\<open>15-01-2024\<close> as a string. The tag map has an
  entry for the empty resource id, which is never looked up.
\<close>

definition tagged_costs :: costResponse where
  "tagged_costs =
     \<lparr> columns = [''UsageDate'', ''ResourceId'', ''PreTaxCost'', ''ServiceName'',
                   ''ResourceGroupName'', ''ResourceType''],
       rows =
         [[String ''20240115'', String ''/sub/rg/myVM'', Number (Fin (15 / 2)), String ''VM'',
           String ''rg'', String ''vm''],
          [String ''20240202'', String ''/sub/rg/disk'', Number (Fin 3), String ''Storage'',
           String ''rg'', String ''disk''],
          [String ''20240115'', String [], Number (Fin (37 / 4)), String ''VM'',
           String ''rg'', String ''vm'']] \<rparr>"

definition example_tags :: tagMap where
  "example_tags =
     [''/sub/rg/myVM'' \<mapsto> [(''Env'', ''PRD''), (''Team'', ''Eng'')], ''/sub/rg/disk'' \<mapsto> [],
      [] \<mapsto> [(''Env'', ''none'')]]"

definition myVM_item :: costItem where
  "myVM_item =
     \<lparr> Date = ''15-01-2024'', Cost_INR = Fin (15 / 2), ServiceName = String ''VM'',
       ResourceName = ''myVM'', ResourceId = String ''/sub/rg/myVM'',
       ResourceGroupName = String ''rg'', ResourceType = String ''vm'',
       Tags = ''Env=PRD; Team=Eng'' \<rparr>"

definition disk_item :: costItem where
  "disk_item =
     \<lparr> Date = ''02-02-2024'', Cost_INR = Fin 3, ServiceName = String ''Storage'',
       ResourceName = ''disk'', ResourceId = String ''/sub/rg/disk'',
       ResourceGroupName = String ''rg'', ResourceType = String ''disk'',
       Tags = ''No tags'' \<rparr>"

definition unnamed_item :: costItem where
  "unnamed_item =
     \<lparr> Date = ''15-01-2024'', Cost_INR = Fin (37 / 4), ServiceName = String ''VM'',
       ResourceName = ''N/A'', ResourceId = String [],
       ResourceGroupName = String ''rg'', ResourceType = String ''vm'',
       Tags = ''No tags'' \<rparr>"

text \<open>
  Inputs on which the program departs from its specification: a tag whose key is an array
  index, a date that is not of eight characters, a response without the cost column,
  costs at or next to a tie at the cent, a cost whose hundredfold is no finite double,
  and costs that are not finite numbers.
\<close>

definition indexed_tags :: tagMap where
  "indexed_tags = [''/sub/rg/myVM'' \<mapsto> [(''Env'', ''PRD''), (''2024'', ''x'')]]"

definition one_vm_costs :: costResponse where
  "one_vm_costs =
     \<lparr> columns = [''UsageDate'', ''ResourceId'', ''PreTaxCost''],
       rows = [[String ''20240115'', String ''/sub/rg/myVM'', Number (Fin (15 / 2))]] \<rparr>"

definition malformed_date_costs :: costResponse where
  "malformed_date_costs =
     \<lparr> columns = [''UsageDate'', ''PreTaxCost''],
       rows = [[String ''abc'', Number (Fin 1)]] \<rparr>"

definition no_cost_column :: costResponse where
  "no_cost_column =
     \<lparr> columns = [''UsageDate'', ''ResourceId'', ''ServiceName'', ''ResourceGroupName'',
                   ''ResourceType''],
       rows = [[String ''20240115'', String ''/sub/rg/myVM'', String ''VM'', String ''rg'',
                String ''vm'']] \<rparr>"

definition negative_tie_costs :: costResponse where
  "negative_tie_costs =
     \<lparr> columns = [''PreTaxCost''], rows = [[Number (Fin (- 1 / 8))]] \<rparr>"

definition below_tie_costs :: costResponse where
  "below_tie_costs =
     \<lparr> columns = [''PreTaxCost''], rows = [[Number (Fin double_1_005)]] \<rparr>"

definition product_tie_costs :: costResponse where
  "product_tie_costs =
     \<lparr> columns = [''PreTaxCost''], rows = [[Number (Fin double_0_015)]] \<rparr>"

text \<open>The record of a row of 15 January 2024 that has nothing but its date and a cost.\<close>

definition dated_item :: "number \<Rightarrow> costItem" where
  "dated_item c =
     \<lparr> Date = ''15-01-2024'', Cost_INR = c, ServiceName = String ''N/A'',
       ResourceName = ''N/A'', ResourceId = String [],
       ResourceGroupName = String ''N/A'', ResourceType = String ''N/A'',
       Tags = ''No tags'' \<rparr>"

definition overflow_costs :: costResponse where
  "overflow_costs =
     \<lparr> columns = [''PreTaxCost''], rows = [[Number (Fin double_1e308)]] \<rparr>"

definition nan_cost_costs :: costResponse where
  "nan_cost_costs =
     \<lparr> columns = [''UsageDate'', ''PreTaxCost''],
       rows = [[String ''20240115'', Number (Fin 1)],
               [String ''20240115'', String ''x''],
               [String ''20240115'', Number (Fin 2)]] \<rparr>"

definition dropped_nan_costs :: costResponse where
  "dropped_nan_costs =
     \<lparr> columns = [''UsageDate'', ''PreTaxCost''],
       rows = [[String ''20240115'', String ''x''],
               [String ''20240115'', Number (Fin 2)]] \<rparr>"

definition infinite_costs :: costResponse where
  "infinite_costs =
     \<lparr> columns = [''UsageDate'', ''PreTaxCost''],
       rows = [[String ''20240115'', String ''Infinity''],
               [String ''20240115'', String ''-Infinity''],
               [String ''20240115'', String ''-Infinity'']] \<rparr>"

section \<open>Lemmas\<close>

subsection \<open>Rounding to a double\<close>

lemma find_upto:
  "find P [i..j] = Some k \<Longrightarrow> i \<le> k \<and> k \<le> j \<and> P k \<and> (\<forall>l. i \<le> l \<and> l < k \<longrightarrow> \<not> P l)"
proof -
  assume "find P [i..j] = Some k"
  then obtain n where n: "n < length [i..j]" "P ([i..j] ! n)" "k = [i..j] ! n"
      "\<forall>m<n. \<not> P ([i..j] ! m)"
    unfolding find_Some_iff by blast
  from n(1) have le: "i + int n \<le> j" by simp
  hence k: "k = i + int n" using n(3) by simp
  have "\<not> P l" if "i \<le> l" "l < k" for l
  proof -
    have "nat (l - i) < n" using that k by linarith
    moreover have "[i..j] ! nat (l - i) = l" using that k le by simp
    ultimately show ?thesis using n(4) by metis
  qed
  thus ?thesis using n(2) k le by simp
qed

lemma least_from_bounds: "i \<le> j + 1 \<Longrightarrow> i \<le> least_from P i j \<and> least_from P i j \<le> j + 1"
  unfolding least_from_def by (auto split: option.splits dest: find_upto)

lemma least_from_holds: "least_from P i j \<le> j \<Longrightarrow> P (least_from P i j)"
  unfolding least_from_def by (auto split: option.splits dest: find_upto)

lemma least_from_least: "i \<le> l \<Longrightarrow> l < least_from P i j \<Longrightarrow> \<not> P l"
  unfolding least_from_def by (auto split: option.splits dest: find_upto simp: find_None_iff)

lemma quantum_bounds: "- 1074 \<le> quantum q \<and> quantum q \<le> 972"
  unfolding quantum_def using least_from_bounds [of "- 1074" 971] by simp

lemma quantum_upper: "quantum q \<le> 971 \<Longrightarrow> \<bar>q\<bar> < 2 powi (quantum q + 53)"
  unfolding quantum_def by (rule least_from_holds)

lemma quantum_le:
  assumes "- 1074 \<le> k" "\<bar>q\<bar> < 2 powi (k + 53)"
  shows "quantum q \<le> k"
  using least_from_least [of "- 1074" k "\<lambda>k. \<bar>q\<bar> < 2 powi (k + 53)" 971] assms
  unfolding quantum_def by fastforce

lemma quantum_lower: "quantum q = - 1074 \<or> 2 powi (quantum q + 52) \<le> \<bar>q\<bar>"
proof (cases "quantum q = - 1074")
  case False
  hence "- 1074 \<le> quantum q - 1" "quantum q - 1 < quantum q" using quantum_bounds [of q] by simp_all
  hence "\<not> \<bar>q\<bar> < 2 powi (quantum q - 1 + 53)"
    unfolding quantum_def by (rule least_from_least)
  thus ?thesis by (simp add: algebra_simps)
qed simp

lemma quantum_eq:
  assumes "- 1074 \<le> k" "k \<le> 971" "\<bar>q\<bar> < 2 powi (k + 53)"
    and "k = - 1074 \<or> 2 powi (k + 52) \<le> \<bar>q\<bar>"
  shows "quantum q = k"
proof (rule antisym)
  show "quantum q \<le> k" using assms(1,3) by (rule quantum_le)
  show "k \<le> quantum q"
  proof (rule ccontr)
    assume "\<not> k \<le> quantum q"
    hence less: "quantum q < k" by simp
    hence "\<bar>q\<bar> < 2 powi (quantum q + 53)" using assms(2) by (intro quantum_upper) simp
    also have "(2::rat) powi (quantum q + 53) \<le> 2 powi (k + 52)"
      using less by (intro power_int_increasing) simp_all
    finally have "\<bar>q\<bar> < 2 powi (k + 52)" .
    with assms(4) less quantum_bounds [of q] show False by auto
  qed
qed

lemma round_half_even_of_int: "round_half_even (of_int n) = n"
  by (simp add: round_half_even_def)

lemma round_half_even_bounds:
  "of_int (round_half_even y) \<le> y + 1 / 2 \<and> y - 1 / 2 \<le> of_int (round_half_even y)"
  unfolding round_half_even_def Let_def by (auto; linarith)


lemma binary64_eval:
  assumes "- 1074 \<le> k" "k \<le> 971" "\<bar>q\<bar> < 2 powi (k + 53)"
    and "k = - 1074 \<or> 2 powi (k + 52) \<le> \<bar>q\<bar>"
    and "round_half_even (q / 2 powi k) = m"
    and "\<bar>of_int m * 2 powi k :: rat\<bar> < 2 powi 1024"
  shows "binary64 q = Fin (of_int m * 2 powi k)"
  using quantum_eq [OF assms(1-4)] assms(5,6) by (simp add: binary64_def Let_def)

lemma binary64_exact:
  assumes "\<bar>m\<bar> < 2 ^ 53" "- 1074 \<le> k" "k \<le> 971"
  shows "binary64 (of_int m * 2 powi k) = Fin (of_int m * 2 powi k)"
proof -
  define q :: rat where "q = of_int m * 2 powi k"
  define k' where "k' = quantum q"
  have "\<bar>q\<bar> = of_int \<bar>m\<bar> * 2 powi k" by (simp add: q_def abs_mult)
  also have "\<dots> < of_int (2 ^ 53) * 2 powi k"
    using assms(1) by (intro mult_strict_right_mono) (simp_all only: of_int_less_iff zero_less_power_int zero_less_numeral)
  also have "\<dots> = 2 powi (k + 53)" by (simp add: power_int_add)
  finally have less: "\<bar>q\<bar> < 2 powi (k + 53)" .
  hence le: "k' \<le> k" unfolding k'_def using assms(2) by (intro quantum_le)
  have "q / 2 powi k' = of_int m * 2 powi (k - k')" by (simp add: q_def power_int_diff)
  also have "(2::rat) powi (k - k') = 2 ^ nat (k - k')" using le by (simp add: power_int_def)
  finally have "q / 2 powi k' = of_int (m * 2 ^ nat (k - k'))" by simp
  hence "round_half_even (q / 2 powi k') = m * 2 ^ nat (k - k')"
    by (simp only: round_half_even_of_int)
  hence "of_int (round_half_even (q / 2 powi k')) * 2 powi k' = q / 2 powi k' * 2 powi k'"
    using \<open>q / 2 powi k' = of_int (m * 2 ^ nat (k - k'))\<close> by simp
  hence r: "of_int (round_half_even (q / 2 powi k')) * 2 powi k' = q" by simp
  have "(2::rat) powi (k + 53) \<le> 2 powi 1024"
    using assms(3) by (intro power_int_increasing) simp_all
  hence "\<not> 2 powi 1024 \<le> \<bar>q\<bar>" using less by linarith
  thus ?thesis using r unfolding binary64_def Let_def k'_def [symmetric] q_def [symmetric]
    by simp
qed

lemma binary64_of_int: "\<bar>m\<bar> < 2 ^ 53 \<Longrightarrow> binary64 (of_int m) = Fin (of_int m)"
  using binary64_exact [of m 0] by simp

lemma binary64_0 [simp]: "binary64 0 = Fin 0"
  using binary64_of_int [of 0] by simp

lemma binary64_1 [simp]: "binary64 1 = Fin 1"
  using binary64_of_int [of 1] by simp

lemma binary64_numeral [simp]:
  "numeral w < (2::int) ^ 53 \<Longrightarrow> binary64 (numeral w) = Fin (numeral w)"
  using binary64_of_int [of "numeral w"] by simp

lemma binary64_neg_numeral [simp]:
  "numeral w < (2::int) ^ 53 \<Longrightarrow> binary64 (- numeral w) = Fin (- numeral w)"
  using binary64_of_int [of "- numeral w"] by simp

lemma binary64_half [simp]:
  "numeral w < (2::int) ^ 53 \<Longrightarrow> binary64 (numeral w / 2) = Fin (numeral w / 2)"
  using binary64_exact [of "numeral w" "- 1"] by simp

lemma binary64_neg_half [simp]:
  "numeral w < (2::int) ^ 53 \<Longrightarrow> binary64 (- (numeral w / 2)) = Fin (- (numeral w / 2))"
  using binary64_exact [of "- numeral w" "- 1"] by simp

lemma binary64_quarter [simp]:
  "numeral w < (2::int) ^ 53 \<Longrightarrow> binary64 (numeral w / 4) = Fin (numeral w / 4)"
  using binary64_exact [of "numeral w" "- 2"] by simp

lemma binary64_neg_quarter [simp]:
  "numeral w < (2::int) ^ 53 \<Longrightarrow> binary64 (- (numeral w / 4)) = Fin (- (numeral w / 4))"
  using binary64_exact [of "- numeral w" "- 2"] by simp

lemma binary64_grid:
  assumes "binary64 q = Fin r"
  shows "\<exists>n::int. r = of_int n * least_double"
proof -
  define k where "k = quantum q"
  define m where "m = round_half_even (q / 2 powi k)"
  have r: "r = of_int m * 2 powi k"
    using assms unfolding binary64_def Let_def k_def m_def by (simp split: if_splits)
  have "0 \<le> k + 1074" using quantum_bounds [of q] by (simp add: k_def)
  hence "(2::rat) powi k = 2 ^ nat (k + 1074) * 2 powi (- 1074)"
    using power_int_add [of "2::rat" "k + 1074" "- 1074"] by (simp add: power_int_def)
  hence "r = of_int (m * 2 ^ nat (k + 1074)) * least_double"
    using r by (simp add: least_double_def)
  thus ?thesis by blast
qed

lemma quotient_ge_1:
  assumes "least_double \<le> \<bar>q\<bar>"
  shows "1 \<le> \<bar>q\<bar> / 2 powi quantum q"
proof -
  have "2 powi quantum q \<le> \<bar>q\<bar>"
  proof (cases "quantum q = - 1074")
    case True thus ?thesis using assms by (simp add: least_double_def)
  next
    case False
    hence "2 powi (quantum q + 52) \<le> \<bar>q\<bar>" using quantum_lower [of q] by simp
    moreover have "(2::rat) powi quantum q \<le> 2 powi (quantum q + 52)"
      by (intro power_int_increasing) simp_all
    ultimately show ?thesis by linarith
  qed
  thus ?thesis by (simp add: pos_le_divide_eq)
qed

lemma binary64_pos:
  assumes "least_double \<le> q"
  shows "(\<exists>r>0. binary64 q = Fin r) \<or> binary64 q = PInf"
proof -
  have pos: "0 < q"
    using assms zero_less_power_int [of "2::rat" "- 1074"] by (simp add: least_double_def)
  hence "1 \<le> q / 2 powi quantum q" using quotient_ge_1 [of q] assms by simp
  hence "1 / 2 \<le> (of_int (round_half_even (q / 2 powi quantum q)) :: rat)"
    using round_half_even_bounds [of "q / 2 powi quantum q"] by linarith
  hence "0 < round_half_even (q / 2 powi quantum q)" by linarith
  hence "0 < (of_int (round_half_even (q / 2 powi quantum q)) :: rat) * 2 powi quantum q"
    by (intro mult_pos_pos) simp_all
  thus ?thesis using pos by (simp add: binary64_def Let_def)
qed

lemma binary64_neg:
  assumes "q \<le> - least_double"
  shows "(\<exists>r<0. binary64 q = Fin r) \<or> binary64 q = NInf"
proof -
  have neg: "q < 0"
    using assms zero_less_power_int [of "2::rat" "- 1074"] by (simp add: least_double_def)
  hence "1 \<le> - q / 2 powi quantum q" using quotient_ge_1 [of q] assms by simp
  hence "q / 2 powi quantum q \<le> - 1" by simp
  hence "(of_int (round_half_even (q / 2 powi quantum q)) :: rat) \<le> - (1 / 2)"
    using round_half_even_bounds [of "q / 2 powi quantum q"] by linarith
  hence "round_half_even (q / 2 powi quantum q) < 0" by linarith
  hence "(of_int (round_half_even (q / 2 powi quantum q)) :: rat) * 2 powi quantum q < 0"
    by (intro mult_neg_pos) simp_all
  thus ?thesis using neg by (simp add: binary64_def Let_def)
qed

lemma floor_rat_numeral:
  "\<lfloor>numeral a / numeral b :: rat\<rfloor> = numeral a div numeral b"
  using floor_divide_of_int_eq [of "numeral a" "numeral b", where ?'a = rat] by simp

lemma floor_neg_rat_numeral:
  "\<lfloor>- (numeral a / numeral b) :: rat\<rfloor> = - numeral a div numeral b"
  using floor_divide_of_int_eq [of "- numeral a" "numeral b", where ?'a = rat] by simp

lemma floor_half: "\<lfloor>1 / 2 :: rat\<rfloor> = 0"
  by (simp add: floor_eq_iff)

lemma binary64_overflow:
  assumes "2 powi 1024 \<le> \<bar>q\<bar>"
  shows "binary64 q = (if 0 < q then PInf else NInf)"
proof -
  have "\<not> quantum q \<le> 971"
  proof
    assume le: "quantum q \<le> 971"
    hence "\<bar>q\<bar> < 2 powi (quantum q + 53)" by (rule quantum_upper)
    also have "(2::rat) powi (quantum q + 53) \<le> 2 powi 1024"
      using le by (intro power_int_increasing) simp_all
    finally show False using assms by simp
  qed
  hence k: "quantum q = 972" using quantum_bounds [of q] by linarith
  have "(2::rat) powi 1024 = 2 powi 52 * 2 powi 972"
    using power_int_add [of "2::rat" 52 972] by simp
  hence "2 powi 52 \<le> \<bar>q\<bar> / 2 powi 972"
    using assms by (simp add: pos_le_divide_eq)
  hence big: "2 powi 52 \<le> \<bar>q / 2 powi 972\<bar>" by simp
  have "2 powi 52 - 1 / 2 \<le> \<bar>(of_int (round_half_even (q / 2 powi 972)) :: rat)\<bar>"
    using round_half_even_bounds [of "q / 2 powi 972"] big by linarith
  hence "(2::rat) powi 52 - 1 / 2 \<le> of_int \<bar>round_half_even (q / 2 powi 972)\<bar>" by simp
  hence "(of_int (2 ^ 52 - 1) :: rat) < of_int \<bar>round_half_even (q / 2 powi 972)\<bar>" by simp
  hence "2 ^ 52 - 1 < \<bar>round_half_even (q / 2 powi 972)\<bar>" by (simp only: of_int_less_iff)
  hence "(2::int) ^ 52 \<le> \<bar>round_half_even (q / 2 powi 972)\<bar>" by linarith
  hence "(of_int (2 ^ 52) :: rat) \<le> of_int \<bar>round_half_even (q / 2 powi 972)\<bar>"
    by (simp only: of_int_le_iff)
  hence "(2::rat) powi 52 * 2 powi 972
      \<le> \<bar>of_int (round_half_even (q / 2 powi 972))\<bar> * 2 powi 972"
    by (intro mult_right_mono) simp_all
  hence "2 powi 1024 \<le> \<bar>of_int (round_half_even (q / 2 powi 972)) * 2 powi 972 :: rat\<bar>"
    using \<open>(2::rat) powi 1024 = 2 powi 52 * 2 powi 972\<close> by (simp add: abs_mult)
  thus ?thesis by (simp add: binary64_def Let_def k)
qed

lemma fl_0 [simp]: "fl ar 0 = Fin 0"
  by (cases ar) simp_all

lemma fl_grid:
  "fl ar q = Fin r \<Longrightarrow> ar = Exact \<or> (\<exists>n::int. r = of_int n * least_double)"
  by (cases ar) (auto dest: binary64_grid)

lemma fl_difference_sign:
  assumes x: "ar = Exact \<or> (\<exists>n::int. x = of_int n * least_double)"
    and y: "ar = Exact \<or> (\<exists>n::int. y = of_int n * least_double)"
  shows "cmp_sign (fl ar (y - x)) = (if y < x then - 1 else if y = x then 0 else 1)"
proof (cases ar)
  case Exact
  thus ?thesis by simp
next
  case Binary64
  with x y obtain n m :: int where n: "x = of_int n * least_double"
    and m: "y = of_int m * least_double"
    by auto
  have d: "y - x = of_int (m - n) * least_double" by (simp add: n m algebra_simps)
  have u: "0 < least_double" by (simp add: least_double_def)
  consider "m < n" | "m = n" | "n < m" by linarith
  thus ?thesis
  proof cases
    case 1
    hence "(of_int (m - n) :: rat) \<le> - 1" by (metis of_int_le_iff diff_less_0_iff_less
        int_one_le_iff_zero_less minus_diff_eq neg_le_iff_le of_int_1 of_int_minus
        diff_gt_0_iff_gt)
    hence "of_int (m - n) * least_double \<le> - 1 * least_double"
      using u by (intro mult_right_mono) simp_all
    hence "y - x \<le> - least_double" by (simp add: d)
    from binary64_neg [OF this] have "cmp_sign (binary64 (y - x)) = - 1" by auto
    moreover have "y < x" using 1 u by (simp add: n m)
    ultimately show ?thesis using Binary64 by simp
  next
    case 2
    thus ?thesis using Binary64 by (simp add: n m)
  next
    case 3
    hence "1 \<le> (of_int (m - n) :: rat)" by (metis of_int_1_le_iff diff_gt_0_iff_gt
        int_one_le_iff_zero_less)
    hence "1 * least_double \<le> of_int (m - n) * least_double"
      using u by (intro mult_right_mono) simp_all
    hence "least_double \<le> y - x" by (simp add: d)
    from binary64_pos [OF this] have "cmp_sign (binary64 (y - x)) = 1" by auto
    moreover have "x < y" using 3 u by (simp add: n m)
    ultimately show ?thesis using Binary64 by simp
  qed
qed

subsection \<open>Sorting\<close>

lemma mset_insert_sorted: "mset (insert_sorted cmp x ys) = add_mset x (mset ys)"
  by (induction ys) simp_all

lemma mset_foldl_insert_sorted:
  "mset (foldl (\<lambda>acc x. insert_sorted cmp x acc) acc xs) = mset acc + mset xs"
  by (induction xs arbitrary: acc) (simp_all add: mset_insert_sorted)

lemma mset_stable_sort: "mset (stable_sort cmp xs) = mset xs"
  by (simp add: stable_sort_def mset_foldl_insert_sorted)

lemma mset_permuted:
  assumes "sort idx = [0..<length xs]"
  shows "mset (map (\<lambda>i. xs ! i) idx) = mset xs"
proof -
  have "mset idx = mset [0..<length xs]" using assms by (metis mset_sort)
  hence "mset (map (\<lambda>i. xs ! i) idx) = mset (map (\<lambda>i. xs ! i) [0..<length xs])"
    by (metis mset_map)
  thus ?thesis by (simp add: map_nth)
qed

lemma mset_Array_sort: "mset (Array_sort eng cmp xs) = mset xs"
proof (cases "consistent cmp xs")
  case True
  thus ?thesis by (simp add: Array_sort_def mset_stable_sort)
next
  case False
  define idx where "idx = sortOrder eng (\<lambda>i j. cmp (xs ! i) (xs ! j)) (length xs)"
  have "Array_sort eng cmp xs
      = (if sort idx = [0..<length xs] then map (\<lambda>i. xs ! i) idx else xs)"
    using False by (simp add: Array_sort_def Let_def idx_def)
  thus ?thesis using mset_permuted [of idx xs] by (simp del: mset_map)
qed

lemma set_Array_sort: "set (Array_sort eng cmp xs) = set xs"
  using mset_Array_sort [of eng cmp xs] by (metis set_mset_mset)

lemma length_Array_sort: "length (Array_sort eng cmp xs) = length xs"
  using mset_Array_sort [of eng cmp xs] by (metis size_mset)

lemma Array_sort_Nil: "Array_sort eng cmp [] = []"
  using length_Array_sort [of eng cmp "[]"] by simp

lemma Array_sort_single: "Array_sort eng cmp [x] = [x]"
proof -
  have "mset (Array_sort eng cmp [x]) = {#x#}" by (simp add: mset_Array_sort)
  thus ?thesis by (metis mset_single_iff_right)
qed

lemma set_insert_sorted: "set (insert_sorted cmp x ys) = insert x (set ys)"
  using mset_insert_sorted [of cmp x ys] by (metis set_mset_mset set_mset_add_mset_insert)

lemma sorted_wrt_insert_sorted:
  assumes tot: "\<And>a b. a \<in> A \<Longrightarrow> b \<in> A \<Longrightarrow> \<not> negative (cmp a b) \<Longrightarrow> le b a"
    and lt: "\<And>a b. a \<in> A \<Longrightarrow> b \<in> A \<Longrightarrow> negative (cmp a b) \<Longrightarrow> le a b"
    and trans: "\<And>a b c. a \<in> A \<Longrightarrow> b \<in> A \<Longrightarrow> c \<in> A \<Longrightarrow> le a b \<Longrightarrow> le b c \<Longrightarrow> le a c"
    and x: "x \<in> A"
  shows "set ys \<subseteq> A \<Longrightarrow> sorted_wrt le ys \<Longrightarrow> sorted_wrt le (insert_sorted cmp x ys)"
proof (induction ys)
  case Nil
  then show ?case by simp
next
  case (Cons y ys)
  from Cons.prems have y: "y \<in> A" and ys: "set ys \<subseteq> A"
    and y_le: "\<forall>z\<in>set ys. le y z" and sorted: "sorted_wrt le ys"
    by auto
  show ?case
  proof (cases "negative (cmp x y)")
    case True
    have xy: "le x y" by (rule lt [OF x y True])
    have "\<forall>z\<in>set ys. le x z"
    proof
      fix z assume z: "z \<in> set ys"
      with ys have "z \<in> A" by auto
      moreover from y_le z have "le y z" by simp
      ultimately show "le x z" using trans [OF x y _ xy] by blast
    qed
    with True xy y_le sorted show ?thesis by simp
  next
    case False
    have yx: "le y x" by (rule tot [OF x y False])
    from Cons.IH [OF ys sorted] have "sorted_wrt le (insert_sorted cmp x ys)" .
    with False yx y_le show ?thesis by (simp add: set_insert_sorted)
  qed
qed

lemma sorted_wrt_foldl_insert_sorted:
  assumes tot: "\<And>a b. a \<in> A \<Longrightarrow> b \<in> A \<Longrightarrow> \<not> negative (cmp a b) \<Longrightarrow> le b a"
    and lt: "\<And>a b. a \<in> A \<Longrightarrow> b \<in> A \<Longrightarrow> negative (cmp a b) \<Longrightarrow> le a b"
    and trans: "\<And>a b c. a \<in> A \<Longrightarrow> b \<in> A \<Longrightarrow> c \<in> A \<Longrightarrow> le a b \<Longrightarrow> le b c \<Longrightarrow> le a c"
  shows "set xs \<subseteq> A \<Longrightarrow> set acc \<subseteq> A \<Longrightarrow> sorted_wrt le acc
    \<Longrightarrow> sorted_wrt le (foldl (\<lambda>acc x. insert_sorted cmp x acc) acc xs)"
proof (induction xs arbitrary: acc)
  case Nil
  then show ?case by simp
next
  case (Cons x xs)
  from Cons.prems have x: "x \<in> A" and xs: "set xs \<subseteq> A" by auto
  have "sorted_wrt le (insert_sorted cmp x acc)"
    by (rule sorted_wrt_insert_sorted [where A = A, OF tot lt trans x Cons.prems(2) Cons.prems(3)])
  moreover have "set (insert_sorted cmp x acc) \<subseteq> A"
    using x Cons.prems(2) by (simp add: set_insert_sorted)
  ultimately show ?case using Cons.IH [OF xs] by simp
qed

lemma sorted_wrt_stable_sort:
  assumes tot: "\<And>a b. a \<in> set xs \<Longrightarrow> b \<in> set xs \<Longrightarrow> \<not> negative (cmp a b) \<Longrightarrow> le b a"
    and lt: "\<And>a b. a \<in> set xs \<Longrightarrow> b \<in> set xs \<Longrightarrow> negative (cmp a b) \<Longrightarrow> le a b"
    and trans: "\<And>a b c. a \<in> set xs \<Longrightarrow> b \<in> set xs \<Longrightarrow> c \<in> set xs
      \<Longrightarrow> le a b \<Longrightarrow> le b c \<Longrightarrow> le a c"
  shows "sorted_wrt le (stable_sort cmp xs)"
  unfolding stable_sort_def
  by (rule sorted_wrt_foldl_insert_sorted [where A = "set xs", OF tot lt trans]) simp_all

text \<open>
  A comparator that is the three-way comparison of a strict weak order is consistent,
  and the sort puts the array in that order.
\<close>

lemma strict_weak_order_sorted:
  assumes sign: "\<And>a b. a \<in> set xs \<Longrightarrow> b \<in> set xs
      \<Longrightarrow> cmp_sign (cmp a b) = (if lt a b then - 1 else if lt b a then 1 else 0)"
    and irrefl: "\<And>a. a \<in> set xs \<Longrightarrow> \<not> lt a a"
    and trans: "\<And>a b c. a \<in> set xs \<Longrightarrow> b \<in> set xs \<Longrightarrow> c \<in> set xs
      \<Longrightarrow> lt a b \<Longrightarrow> lt b c \<Longrightarrow> lt a c"
    and negtrans: "\<And>a b c. a \<in> set xs \<Longrightarrow> b \<in> set xs \<Longrightarrow> c \<in> set xs
      \<Longrightarrow> \<not> lt a b \<Longrightarrow> \<not> lt b c \<Longrightarrow> \<not> lt a c"
  shows "consistent cmp xs"
    and "sorted_wrt (\<lambda>a b. \<not> lt b a) (Array_sort eng cmp xs)"
proof -
  have asym: "\<And>a b. a \<in> set xs \<Longrightarrow> b \<in> set xs \<Longrightarrow> lt a b \<Longrightarrow> \<not> lt b a"
    using irrefl trans by blast
  have zero: "\<And>a b. a \<in> set xs \<Longrightarrow> b \<in> set xs
      \<Longrightarrow> (cmp_sign (cmp a b) = 0) = (\<not> lt a b \<and> \<not> lt b a)"
    by (simp add: sign)
  have neg: "\<And>a b. a \<in> set xs \<Longrightarrow> b \<in> set xs \<Longrightarrow> (cmp_sign (cmp a b) < 0) = lt a b"
    by (simp add: sign)
  have pos: "\<And>a b. a \<in> set xs \<Longrightarrow> b \<in> set xs
      \<Longrightarrow> (0 < cmp_sign (cmp a b)) = (\<not> lt a b \<and> lt b a)"
    by (simp add: sign)
  have nonneg: "\<And>a b. a \<in> set xs \<Longrightarrow> b \<in> set xs
      \<Longrightarrow> (0 \<le> cmp_sign (cmp a b)) = (\<not> lt a b)"
    by (simp add: sign)
  have nonpos: "\<And>a b. a \<in> set xs \<Longrightarrow> b \<in> set xs
      \<Longrightarrow> (cmp_sign (cmp a b) \<le> 0) = (lt a b \<or> \<not> lt b a)"
    by (simp add: sign)
  show con: "consistent cmp xs"
    unfolding consistent_def list_all_iff
  proof (intro ballI conjI)
    fix a assume a: "a \<in> set xs"
    show "cmp_sign (cmp a a) = 0" using zero [OF a a] irrefl [OF a] by simp
    fix b assume b: "b \<in> set xs"
    show "cmp_sign (cmp a b) \<noteq> 0 \<or> cmp_sign (cmp b a) = 0"
      using zero [OF a b] zero [OF b a] by blast
    fix c assume c: "c \<in> set xs"
    show "cmp_sign (cmp a b) \<noteq> 0 \<or> cmp_sign (cmp b c) \<noteq> 0 \<or> cmp_sign (cmp a c) = 0"
      using zero [OF a b] zero [OF b c] zero [OF a c] negtrans [OF a b c] negtrans [OF c b a]
      by blast
    show "0 \<le> cmp_sign (cmp a b) \<or> 0 \<le> cmp_sign (cmp b c) \<or> cmp_sign (cmp a c) < 0"
      using nonneg [OF a b] nonneg [OF b c] neg [OF a c] trans [OF a b c] by blast
    show "cmp_sign (cmp a b) \<le> 0 \<or> cmp_sign (cmp b c) \<le> 0 \<or> 0 < cmp_sign (cmp a c)"
      using nonpos [OF a b] nonpos [OF b c] pos [OF a c] trans [OF c b a] asym [OF c a]
        asym [OF a b] asym [OF b c]
      by blast
  qed
  have "sorted_wrt (\<lambda>a b. \<not> lt b a) (stable_sort cmp xs)"
  proof (rule sorted_wrt_stable_sort)
    fix a b assume ab: "a \<in> set xs" "b \<in> set xs" and "\<not> negative (cmp a b)"
    thus "\<not> lt a b" using neg [OF ab] by (simp add: negative_def)
  next
    fix a b assume ab: "a \<in> set xs" "b \<in> set xs" and "negative (cmp a b)"
    hence "lt a b" using neg [OF ab] by (simp add: negative_def)
    thus "\<not> lt b a" using asym [OF ab] by blast
  next
    fix a b c assume abc: "a \<in> set xs" "b \<in> set xs" "c \<in> set xs"
      and "\<not> lt b a" "\<not> lt c b"
    thus "\<not> lt c a" using negtrans [OF abc(3,2,1)] by blast
  qed
  thus "sorted_wrt (\<lambda>a b. \<not> lt b a) (Array_sort eng cmp xs)"
    using con by (simp add: Array_sort_def)
qed

subsection \<open>Enumeration of an object\<close>

lemma mset_insert_index: "mset (insert_index e es) = add_mset e (mset es)"
  by (induction es) simp_all

lemma mset_foldr_insert_index: "mset (foldr insert_index xs []) = mset xs"
  by (induction xs) (simp_all add: mset_insert_index)

lemma sorted_insert_index:
  "sorted (map (\<lambda>e. decimal_val (fst e)) es)
   \<Longrightarrow> sorted (map (\<lambda>e. decimal_val (fst e)) (insert_index e es))"
proof (induction es)
  case Nil
  then show ?case by simp
next
  case (Cons e' es)
  have "set (insert_index e es) = insert e (set es)"
    using mset_insert_index [of e es] by (metis set_mset_mset set_mset_add_mset_insert)
  with Cons show ?case by auto
qed

lemma index_keys_ascending:
  "sorted (map (\<lambda>e. decimal_val (fst e)) (foldr insert_index es []))"
  by (induction es) (simp_all add: sorted_insert_index)

lemma mset_Object_entries: "mset (Object_entries obj) = mset obj"
  by (simp add: Object_entries_def mset_foldr_insert_index)

lemma Object_entries_no_index:
  "list_all (\<lambda>e. \<not> is_array_index (fst e)) obj \<Longrightarrow> Object_entries obj = obj"
  by (simp add: Object_entries_def list_all_iff filter_empty_conv filter_id_conv)

lemma length_Object_entries: "length (Object_entries obj) = length obj"
  using mset_Object_entries [of obj] by (metis size_mset)

subsection \<open>The loop over the rows\<close>

lemma processRows_Inr:
  "processRows eng cm tags p rs (dc, tot) = Inr (dc', tot')
   \<Longrightarrow> \<exists>items. map (processRow eng cm tags p) rs = map Inr items
          \<and> dc' = dc @ items
          \<and> tot' = foldl (nadd (arithmetic eng)) tot (map Cost_INR items)"
proof (induction rs arbitrary: dc tot)
  case Nil
  then show ?case by simp
next
  case (Cons row rest)
  from Cons.prems obtain item where item: "processRow eng cm tags p row = Inr item"
    and rest: "processRows eng cm tags p rest
        (dc @ [item], nadd (arithmetic eng) tot (Cost_INR item))
      = Inr (dc', tot')"
    by (auto split: sum.splits)
  from Cons.IH [OF rest] obtain items where
    "map (processRow eng cm tags p) rest = map Inr items"
    "dc' = (dc @ [item]) @ items"
    "tot' = foldl (nadd (arithmetic eng)) (nadd (arithmetic eng) tot (Cost_INR item))
              (map Cost_INR items)"
    by blast
  with item show ?case
    by (intro exI [of _ "item # items"]) simp
qed

lemma processRow_Inr:
  assumes "processRow eng cm tags p row = Inr item"
  shows "Date item = dateValue_of eng cm row"
    and "Cost_INR item = cost_of eng cm row"
    and "ResourceId item = resourceId_of cm row"
    and "Tags item = tagsStr_of eng tags p (resourceId_of cm row)"
    and "ServiceName item = column_or_NA cm ''ServiceName'' row"
    and "ResourceGroupName item = column_or_NA cm ''ResourceGroupName'' row"
    and "ResourceType item = column_or_NA cm ''ResourceType'' row"
    and "resourceName_of (resourceId_of cm row) = Inr (ResourceName item)"
  using assms
  by (auto simp add: processRow_def Let_def split: if_splits sum.splits)

lemma map_Inr_nth:
  assumes "map f rs = map Inr items"
  shows "length items = length rs" and "\<And>i. i < length rs \<Longrightarrow> f (rs ! i) = Inr (items ! i)"
proof -
  from assms show len: "length items = length rs" by (metis length_map)
  fix i assume "i < length rs"
  with assms len show "f (rs ! i) = Inr (items ! i)" by (metis nth_map)
qed

lemma map_Inr_member:
  assumes "map f rs = map Inr items" and "item \<in> set items"
  shows "\<exists>row\<in>set rs. f row = Inr item"
proof -
  from assms(2) obtain i where i: "i < length items" "items ! i = item"
    by (auto simp add: in_set_conv_nth)
  from map_Inr_nth [OF assms(1)] i have "i < length rs" "f (rs ! i) = Inr item" by auto
  then show ?thesis by (metis nth_mem)
qed

lemma map_Inr_costs:
  assumes "map (processRow eng cm tags p) rs = map Inr items"
  shows "map Cost_INR items = map (cost_of eng cm) rs"
proof (rule nth_equalityI)
  show "length (map Cost_INR items) = length (map (cost_of eng cm) rs)"
    using map_Inr_nth(1) [OF assms] by simp
next
  fix i assume "i < length (map Cost_INR items)"
  then have i: "i < length rs" "i < length items" using map_Inr_nth(1) [OF assms] by simp_all
  from map_Inr_nth(2) [OF assms i(1)] have "Cost_INR (items ! i) = cost_of eng cm (rs ! i)"
    by (rule processRow_Inr(2))
  with i show "map Cost_INR items ! i = map (cost_of eng cm) rs ! i" by simp
qed

lemma processCostData_Inr:
  assumes "processCostData eng costResp tags p = Inr r"
  shows "\<exists>items. map (processRow eng (build_columnMap (columns costResp)) tags p) (rows costResp)
              = map Inr items
      \<and> detailed_costs r = Array_sort eng (compareCostItems eng) items
      \<and> summary r = createSummary eng (detailed_costs r)
                       (nsum (arithmetic eng)
                          (map (cost_of eng (build_columnMap (columns costResp)))
                             (rows costResp))) p"
proof -
  let ?cm = "build_columnMap (columns costResp)"
  from assms obtain dc tot where
    loop: "processRows eng ?cm tags p (rows costResp) ([], Fin 0) = Inr (dc, tot)"
    and r: "r = \<lparr> summary = createSummary eng (Array_sort eng (compareCostItems eng) dc) tot p,
                  detailed_costs = Array_sort eng (compareCostItems eng) dc,
                  metadata = metadata r \<rparr>"
    by (auto simp add: processCostData_def Let_def split: sum.splits prod.splits)
  from processRows_Inr [OF loop] obtain items where
    items: "map (processRow eng ?cm tags p) (rows costResp) = map Inr items"
    and "dc = items" "tot = foldl (nadd (arithmetic eng)) (Fin 0) (map Cost_INR items)"
    by auto
  moreover from map_Inr_costs [OF items]
  have "foldl (nadd (arithmetic eng)) (Fin 0) (map Cost_INR items)
      = nsum (arithmetic eng) (map (cost_of eng ?cm) (rows costResp))"
    by (simp add: nsum_def)
  ultimately show ?thesis using r
    by (intro exI [of _ items]) (metis response.select_convs(1,2))
qed

lemma processCostData_rows:
  assumes "processRows eng (build_columnMap (columns costResp)) tags p (rows costResp)
             ([], Fin 0) = Inr (items, tot)"
  shows "\<exists>r. processCostData eng costResp tags p = Inr r
      \<and> detailed_costs r = Array_sort eng (compareCostItems eng) items
      \<and> summary r = createSummary eng (Array_sort eng (compareCostItems eng) items) tot p"
  using assms by (simp add: processCostData_def Let_def)

subsection \<open>Arithmetic\<close>

lemma round2_exact: "round2 Exact (Fin x) = Fin (of_int \<lfloor>x * 100 + 1 / 2\<rfloor> / 100)"
  by (simp add: round2_def)

lemma round2_NaN: "round2 ar NaN = NaN"
  by (simp add: round2_def)

lemma round2_zero: "round2 ar (Fin 0) = Fin 0"
  by (simp add: round2_def floor_half)

lemma round2_number:
  "fl ar (x * 100) = Fin y \<Longrightarrow> round2 ar (Fin x) = fl ar (of_int \<lfloor>y + 1 / 2\<rfloor> / 100)"
  by (simp add: round2_def)

lemma round2_overflow:
  "fl ar (x * 100) = PInf \<Longrightarrow> round2 ar (Fin x) = PInf"
  "fl ar (x * 100) = NInf \<Longrightarrow> round2 ar (Fin x) = NInf"
  by (simp_all add: round2_def)

lemma round2_grid:
  assumes "round2 ar v = Fin r"
  shows "ar = Exact \<or> (\<exists>n::int. r = of_int n * least_double)"
proof (cases v)
  case (Fin x)
  show ?thesis
  proof (cases "fl ar (x * 100)")
    case (Fin y)
    with \<open>v = Fin x\<close> assms have "fl ar (of_int \<lfloor>y + 1 / 2\<rfloor> / 100) = Fin r"
      by (simp add: round2_def)
    thus ?thesis by (rule fl_grid)
  qed (use \<open>v = Fin x\<close> assms in \<open>simp_all add: round2_def\<close>)
qed (use assms in \<open>simp_all add: round2_def\<close>)

lemma cents_round2: "cents (round2 Exact (Fin x))"
  by (simp add: round2_exact)

lemma round2_finite_cents: "finite_number (round2 Exact v) \<Longrightarrow> cents (round2 Exact v)"
  by (cases v) (simp_all add: round2_def)

lemma round2_cents: "cents x \<Longrightarrow> round2 Exact x = x"
proof (cases x)
  case (Fin q)
  assume "cents x"
  with Fin have q: "of_int \<lfloor>q * 100\<rfloor> = q * 100" by simp
  have "\<lfloor>q * 100 + 1 / 2\<rfloor> = \<lfloor>of_int \<lfloor>q * 100\<rfloor> + (1 / 2 :: rat)\<rfloor>" by (simp add: q)
  also have "\<dots> = \<lfloor>q * 100\<rfloor>" by (simp add: floor_half)
  finally have "(of_int \<lfloor>q * 100 + 1 / 2\<rfloor> :: rat) = q * 100" by (simp add: q)
  with Fin show ?thesis by (simp add: round2_exact)
qed simp_all

lemma cents_nadd: "cents x \<Longrightarrow> cents y \<Longrightarrow> cents (nadd Exact x y)"
proof (cases x; cases y)
  fix a b assume xy: "x = Fin a" "y = Fin b" and "cents x" "cents y"
  then have a: "of_int \<lfloor>a * 100\<rfloor> = a * 100" and b: "of_int \<lfloor>b * 100\<rfloor> = b * 100" by simp_all
  have "(a + b) * 100 = of_int (\<lfloor>a * 100\<rfloor> + \<lfloor>b * 100\<rfloor>)"
    by (simp add: a b algebra_simps)
  then have "of_int \<lfloor>(a + b) * 100\<rfloor> = (a + b) * 100"
    by (metis floor_of_int)
  with xy show ?thesis by simp
qed simp_all

lemma cents_foldl_nadd:
  "cents acc \<Longrightarrow> list_all cents xs \<Longrightarrow> cents (foldl (nadd Exact) acc xs)"
  by (induction xs arbitrary: acc) (simp_all add: cents_nadd)

lemma cents_finite: "cents x \<Longrightarrow> finite_number x"
  by (cases x) simp_all

lemma foldl_nadd_value:
  "list_all finite_number xs
   \<Longrightarrow> foldl (nadd Exact) (Fin a) xs = Fin (a + sum_list (map the_fin xs))"
proof (induction xs arbitrary: a)
  case Nil
  then show ?case by simp
next
  case (Cons x xs)
  then obtain b where "x = Fin b" by (cases x) simp_all
  with Cons show ?case by (simp add: add.assoc)
qed

lemma nsum_fin:
  "list_all finite_number xs \<Longrightarrow> nsum Exact xs = Fin (sum_list (map the_fin xs))"
  by (simp add: nsum_def foldl_nadd_value)

lemma nsum_mset:
  assumes "mset xs = mset ys" and "list_all finite_number xs"
  shows "nsum Exact xs = nsum Exact ys"
proof -
  from assms(1) have sets: "set xs = set ys" by (metis set_mset_mset)
  with assms(2) have ys: "list_all finite_number ys" by (simp add: list_all_iff)
  from assms(1) have "mset (map the_fin xs) = mset (map the_fin ys)" by (metis mset_map)
  then have "sum_list (map the_fin xs) = sum_list (map the_fin ys)"
    by (metis sum_mset_sum_list)
  then show ?thesis by (simp add: nsum_fin assms(2) ys)
qed

text \<open>The order of the numbers that are not \<open>NaN\<close>, and the sign of a difference.\<close>

lemma nless_irrefl: "\<not> nless a a"
  by (cases a) simp_all

lemma nless_trans: "nless a b \<Longrightarrow> nless b c \<Longrightarrow> nless a c"
  by (cases a; cases b; cases c) simp_all

lemma nless_negtrans:
  "b \<noteq> NaN \<Longrightarrow> \<not> nless a b \<Longrightarrow> \<not> nless b c \<Longrightarrow> \<not> nless a c"
  by (cases a; cases b; cases c) simp_all

lemma nsub_sign:
  assumes "a \<noteq> NaN" and "b \<noteq> NaN"
    and "\<And>x. a = Fin x \<Longrightarrow> ar = Exact \<or> (\<exists>n::int. x = of_int n * least_double)"
    and "\<And>y. b = Fin y \<Longrightarrow> ar = Exact \<or> (\<exists>n::int. y = of_int n * least_double)"
  shows "cmp_sign (nsub ar b a) = (if nless b a then - 1 else if nless a b then 1 else 0)"
proof (cases a; cases b)
  fix x y assume xy: "a = Fin x" "b = Fin y"
  from fl_difference_sign [OF assms(3) [OF xy(1)] assms(4) [OF xy(2)]] xy
  show ?thesis by (auto simp add: nsub_def)
qed (use assms(1,2) in \<open>simp_all add: nsub_def\<close>)

subsection \<open>Cost buckets\<close>

lemma set_obj_set: "set (obj_set obj k v) \<subseteq> insert (k, v) (set obj)"
  by (induction obj) (auto split: if_splits)

lemma sum_obj_set:
  "sum_list (map (\<lambda>e. the_fin (amount_number (snd e))) (obj_set obj k v))
   = sum_list (map (\<lambda>e. the_fin (amount_number (snd e))) obj)
     - (case map_of obj k of None \<Rightarrow> 0 | Some w \<Rightarrow> the_fin (amount_number w))
     + the_fin (amount_number v)"
  by (induction obj) auto

lemma add_cost_value:
  assumes "arithmetic eng = Exact"
    and "list_all (\<lambda>e. amount_cents (snd e)) obj"
    and "k \<notin> set inherited_names"
  shows "\<exists>old. (case map_of obj k of None \<Rightarrow> 0 | Some w \<Rightarrow> the_fin (amount_number w)) = old
      \<and> add_cost eng obj k (Fin c) = obj_set obj k (Amount (Fin (old + c)))
      \<and> (cents (Fin c) \<longrightarrow> cents (Fin (old + c)))"
proof (cases "map_of obj k")
  case None
  moreover from assms(3) have "k \<noteq> ''__proto__''" by (auto simp add: inherited_names_def)
  ultimately show ?thesis using assms(1,3) by (simp add: add_cost_def)
next
  case (Some w)
  then have "(k, w) \<in> set obj" by (rule map_of_SomeD)
  with assms(2) have w: "amount_cents w" by (auto simp add: list_all_iff)
  then obtain q where q: "w = Amount (Fin q)" and cq: "cents (Fin q)"
    by (cases w rule: amount_cents.cases) (auto elim: cents.elims)
  have "(if number_truthy (Fin q) then Fin q else Fin 0) = Fin q" by simp
  moreover have "cents (Fin c) \<longrightarrow> cents (Fin (q + c))"
    using cents_nadd [of "Fin q" "Fin c"] cq by simp
  ultimately show ?thesis using Some q assms(1) by (simp add: add_cost_def)
qed

lemma add_cost_invariant:
  assumes ar: "arithmetic eng = Exact"
    and obj: "list_all (\<lambda>e. amount_cents (snd e)) obj"
    and c: "cents cost"
    and k: "k \<notin> set inherited_names"
  shows "list_all (\<lambda>e. amount_cents (snd e)) (add_cost eng obj k cost)
     \<and> sum_list (map (\<lambda>e. the_fin (amount_number (snd e))) (add_cost eng obj k cost))
       = sum_list (map (\<lambda>e. the_fin (amount_number (snd e))) obj) + the_fin cost"
proof -
  from c obtain q where q: "cost = Fin q" and cq: "cents (Fin q)"
    by (cases cost) simp_all
  from add_cost_value [OF ar obj k, of q] obtain old where
    old: "(case map_of obj k of None \<Rightarrow> 0 | Some w \<Rightarrow> the_fin (amount_number w)) = old"
    and eq: "add_cost eng obj k (Fin q) = obj_set obj k (Amount (Fin (old + q)))"
    and cn: "cents (Fin q) \<longrightarrow> cents (Fin (old + q))"
    by blast
  have "set (obj_set obj k (Amount (Fin (old + q))))
      \<subseteq> insert (k, Amount (Fin (old + q))) (set obj)"
    by (rule set_obj_set)
  with obj cn cq
  have "list_all (\<lambda>e. amount_cents (snd e)) (obj_set obj k (Amount (Fin (old + q))))"
    by (auto simp add: list_all_iff)
  moreover have "sum_list (map (\<lambda>e. the_fin (amount_number (snd e)))
        (obj_set obj k (Amount (Fin (old + q)))))
      = sum_list (map (\<lambda>e. the_fin (amount_number (snd e))) obj) + q"
    by (simp add: sum_obj_set old)
  ultimately show ?thesis using q eq by simp
qed

lemma dailyCosts_fold:
  assumes ar: "arithmetic eng = Exact"
  shows "list_all (\<lambda>e. amount_cents (snd e)) obj
   \<Longrightarrow> list_all (\<lambda>item. cents (Cost_INR item) \<and> Date item \<notin> set inherited_names) items
   \<Longrightarrow> list_all (\<lambda>e. amount_cents (snd e))
         (foldl (\<lambda>costs item. add_cost eng costs (Date item) (Cost_INR item)) obj items)
       \<and> sum_list (map (\<lambda>e. the_fin (amount_number (snd e)))
           (foldl (\<lambda>costs item. add_cost eng costs (Date item) (Cost_INR item)) obj items))
         = sum_list (map (\<lambda>e. the_fin (amount_number (snd e))) obj)
           + sum_list (map (\<lambda>item. the_fin (Cost_INR item)) items)"
proof (induction items arbitrary: obj)
  case Nil
  then show ?case by simp
next
  case (Cons item items)
  from Cons.prems have c: "cents (Cost_INR item)" and k: "Date item \<notin> set inherited_names"
    and rest: "list_all (\<lambda>item. cents (Cost_INR item) \<and> Date item \<notin> set inherited_names)
      items"
    by simp_all
  from add_cost_invariant [OF ar Cons.prems(1) c k]
  have inv: "list_all (\<lambda>e. amount_cents (snd e)) (add_cost eng obj (Date item) (Cost_INR item))"
    and sum: "sum_list (map (\<lambda>e. the_fin (amount_number (snd e)))
        (add_cost eng obj (Date item) (Cost_INR item)))
      = sum_list (map (\<lambda>e. the_fin (amount_number (snd e))) obj) + the_fin (Cost_INR item)"
    by simp_all
  from Cons.IH [OF inv rest] sum show ?case by (simp add: add.assoc)
qed

lemma dailyCosts_of_sum:
  assumes "arithmetic eng = Exact"
    and "list_all (\<lambda>item. cents (Cost_INR item) \<and> Date item \<notin> set inherited_names) items"
  shows "list_all (\<lambda>e. amount_cents (snd e)) (dailyCosts_of eng items)"
    and "sum_list (map (\<lambda>e. the_fin (amount_number (snd e))) (dailyCosts_of eng items))
       = sum_list (map (\<lambda>item. the_fin (Cost_INR item)) items)"
  using dailyCosts_fold [OF assms(1), of "[]" items] assms(2)
  by (simp_all add: dailyCosts_of_def)

lemma amount_cents_number: "amount_cents v \<Longrightarrow> cents (amount_number v)"
  by (cases v) simp_all

lemma daily_breakdown_sum:
  assumes ar: "arithmetic eng = Exact"
    and items: "list_all (\<lambda>item. cents (Cost_INR item) \<and> Date item \<notin> set inherited_names)
      items"
  shows "nsum Exact (map snd (map (rounded eng)
           (Array_sort eng cmp (Object_entries (dailyCosts_of eng items)))))
     = nsum Exact (map Cost_INR items)"
proof -
  let ?obj = "dailyCosts_of eng items"
  let ?sorted = "Array_sort eng cmp (Object_entries ?obj)"
  have perm: "mset ?sorted = mset ?obj"
    by (simp add: mset_Array_sort mset_Object_entries)
  then have sets: "set ?sorted = set ?obj" by (metis set_mset_mset)
  have inv: "list_all (\<lambda>e. amount_cents (snd e)) ?obj"
    by (rule dailyCosts_of_sum(1) [OF ar items])
  have "\<forall>e\<in>set ?sorted. snd (rounded eng e) = amount_number (snd e)"
  proof
    fix e assume "e \<in> set ?sorted"
    with sets inv have "cents (amount_number (snd e))"
      by (auto simp add: list_all_iff amount_cents_number)
    then show "snd (rounded eng e) = amount_number (snd e)"
      by (simp add: rounded_def round2_cents ar)
  qed
  then have "map snd (map (rounded eng) ?sorted) = map (\<lambda>e. amount_number (snd e)) ?sorted"
    by simp
  moreover have "mset (map (\<lambda>e. amount_number (snd e)) ?sorted)
      = mset (map (\<lambda>e. amount_number (snd e)) ?obj)"
    using perm by (metis mset_map)
  moreover have fin: "list_all finite_number (map (\<lambda>e. amount_number (snd e)) ?obj)"
    using inv by (auto simp add: list_all_iff amount_cents_number cents_finite)
  moreover from sets fin
  have "list_all finite_number (map (\<lambda>e. amount_number (snd e)) ?sorted)"
    by (auto simp add: list_all_iff)
  ultimately have "nsum Exact (map snd (map (rounded eng) ?sorted))
      = nsum Exact (map (\<lambda>e. amount_number (snd e)) ?obj)"
    using nsum_mset by metis
  also have "\<dots> = Fin (sum_list (map the_fin (map (\<lambda>e. amount_number (snd e)) ?obj)))"
    using fin by (rule nsum_fin)
  also have "\<dots> = Fin (sum_list (map (\<lambda>item. the_fin (Cost_INR item)) items))"
    using dailyCosts_of_sum(2) [OF ar items] by (simp add: comp_def)
  also have "\<dots> = nsum Exact (map Cost_INR items)"
    using items by (subst nsum_fin) (auto simp add: list_all_iff comp_def cents_finite)
  finally show ?thesis .
qed

subsection \<open>Records and rows\<close>

lemma total_cost_nonempty:
  "dc \<noteq> []
   \<Longrightarrow> total_cost (createSummary eng dc totalCost p) = round2 (arithmetic eng) totalCost"
  by (simp add: createSummary_def Let_def)

lemma daily_breakdown_nonempty:
  "dc \<noteq> []
   \<Longrightarrow> daily_breakdown (createSummary eng dc totalCost p)
       = map (rounded eng)
           (Array_sort eng (by_key eng) (Object_entries (dailyCosts_of eng dc)))"
  by (simp add: createSummary_def Let_def)

lemma total_cost_rounded:
  "total_cost (createSummary eng dc (nsum (arithmetic eng) (map f rs)) p)
   = (if dc = [] then Fin 0 else round2 (arithmetic eng) (nsum (arithmetic eng) (map f rs)))"
  by (simp add: createSummary_def Let_def)

lemma cost_of_number:
  "row_at row (cm ''PreTaxCost'') = Number (Fin x) \<Longrightarrow> fl (arithmetic eng) (x * 100) = Fin y
   \<Longrightarrow> cost_of eng cm row = fl (arithmetic eng) (of_int \<lfloor>y + 1 / 2\<rfloor> / 100)"
  by (simp add: cost_of_def round2_number)

lemma cost_of_overflow:
  "row_at row (cm ''PreTaxCost'') = Number (Fin x) \<Longrightarrow> fl (arithmetic eng) (x * 100) = PInf
   \<Longrightarrow> cost_of eng cm row = PInf"
  "row_at row (cm ''PreTaxCost'') = Number (Fin x) \<Longrightarrow> fl (arithmetic eng) (x * 100) = NInf
   \<Longrightarrow> cost_of eng cm row = NInf"
  by (simp_all add: cost_of_def round2_overflow)

lemma hyphen_not_inherited: "CHR ''-'' \<in> set s \<Longrightarrow> s \<notin> set inherited_names"
  by (auto simp add: inherited_names_def)

lemma date_not_inherited: "dateValue_of eng cm row \<notin> set inherited_names"
proof (cases "cm ''UsageDate'' = None")
  case True
  then show ?thesis by (simp add: dateValue_of_def inherited_names_def)
next
  case False
  have "CHR ''-'' \<in> set (decodeDate (ToString eng (row_at row (cm ''UsageDate''))))"
    by (simp add: decodeDate_def)
  from hyphen_not_inherited [OF this] False show ?thesis by (simp add: dateValue_of_def)
qed

lemma Object_entries_Nil_iff: "(Object_entries obj = []) = (obj = [])"
  using length_Object_entries [of obj] by (metis length_0_conv)

lemma tagsStr_of_cases:
  "(\<not> include_tags p \<longrightarrow> tagsStr_of eng tags p rid = ''No tags'')
   \<and> (rid = String [] \<longrightarrow> tagsStr_of eng tags p rid = ''No tags'')
   \<and> (\<forall>s. rid = String s \<and> (tags s = None \<or> tags s = Some [])
        \<longrightarrow> tagsStr_of eng tags p rid = ''No tags'')
   \<and> (\<forall>s t. include_tags p \<and> rid = String s \<and> s \<noteq> [] \<and> tags s = Some t \<and> t \<noteq> []
        \<longrightarrow> tagsStr_of eng tags p rid
             = join ''; '' (map (\<lambda>(k, v). k @ ''='' @ v) (Object_entries t)))"
  by (auto simp add: tagsStr_of_def Let_def Object_keys_def Object_entries_Nil_iff)



subsection \<open>Request parameters\<close>

lemma getRequestParameters_object:
  assumes "parse_body eng ev = BObject b"
    and "map_of b ''hasOwnProperty'' = None"
    and "q = (case queryStringParameters ev of None \<Rightarrow> Map.empty | Some q' \<Rightarrow> q')"
  shows "getRequestParameters eng env ev
     = Inr (resolve eng env b (map_of b ''include_tags'' \<noteq> None) q)"
  using assms by (simp add: getRequestParameters_def Let_def)

lemma getRequestParameters_shadowed:
  assumes "parse_body eng ev = BObject b"
    and "map_of b ''hasOwnProperty'' \<noteq> None"
  shows "getRequestParameters eng env ev = Inl TypeError"
  using assms by (simp add: getRequestParameters_def Let_def)

lemma js_or_truthy: "truthy a \<Longrightarrow> js_or (js_or a b) c = a"
  by (simp add: js_or_def)


section \<open>The examples, evaluated\<close>

subsection \<open>Doubles\<close>

text \<open>
  The doubles of the examples, each by its exponent and its significand: the numerals
  read, the products by 100, the quotients by 100 and the running sums.
\<close>

lemma double_10_005_read:
  "binary64 (10005 / 1000)
   = Fin double_10_005"
  using binary64_eval [where q = "10005 / 1000" and k = "- 49"
      and m = "5632314283980227"]
  by (simp add: round_half_even_def floor_rat_numeral floor_neg_rat_numeral
      double_10_005_def)

lemma double_1_005_read:
  "binary64 (1005 / 1000)
   = Fin double_1_005"
  using binary64_eval [where q = "1005 / 1000" and k = "- 52"
      and m = "4526117625507348"]
  by (simp add: round_half_even_def floor_rat_numeral floor_neg_rat_numeral
      double_1_005_def)

lemma double_0_015_read:
  "binary64 (15 / 1000)
   = Fin double_0_015"
  using binary64_eval [where q = "15 / 1000" and k = "- 59"
      and m = "8646911284551352"]
  by (simp add: round_half_even_def floor_rat_numeral floor_neg_rat_numeral
      double_0_015_def)

lemma binary64_10_005_times_100:
  "binary64 (140807857099505675 / 140737488355328)
   = Fin (8800491068719105 / 8796093022208)"
  using binary64_eval [where q = "140807857099505675 / 140737488355328" and k = "- 43"
      and m = "8800491068719105"]
  by (simp add: round_half_even_def floor_rat_numeral floor_neg_rat_numeral)

lemma binary64_10_01:
  "binary64 (1001 / 100)
   = Fin (5635129033747333 / 562949953421312)"
  using binary64_eval [where q = "1001 / 100" and k = "- 49"
      and m = "5635129033747333"]
  by (simp add: round_half_even_def floor_rat_numeral floor_neg_rat_numeral)

lemma binary64_10_01_exact:
  "binary64 (5635129033747333 / 562949953421312)
   = Fin (5635129033747333 / 562949953421312)"
  using binary64_eval [where q = "5635129033747333 / 562949953421312" and k = "- 49"
      and m = "5635129033747333"]
  by (simp add: round_half_even_def floor_rat_numeral floor_neg_rat_numeral)

lemma binary64_20_02_sum:
  "binary64 (5635129033747333 / 281474976710656)
   = Fin (5635129033747333 / 281474976710656)"
  using binary64_eval [where q = "5635129033747333 / 281474976710656" and k = "- 48"
      and m = "5635129033747333"]
  by (simp add: round_half_even_def floor_rat_numeral floor_neg_rat_numeral)

lemma binary64_25_02_sum:
  "binary64 (7042503917300613 / 281474976710656)
   = Fin (7042503917300613 / 281474976710656)"
  using binary64_eval [where q = "7042503917300613 / 281474976710656" and k = "- 48"
      and m = "7042503917300613"]
  by (simp add: round_half_even_def floor_rat_numeral floor_neg_rat_numeral)

lemma binary64_25_02:
  "binary64 (1251 / 50)
   = Fin (7042503917300613 / 281474976710656)"
  using binary64_eval [where q = "1251 / 50" and k = "- 48"
      and m = "7042503917300613"]
  by (simp add: round_half_even_def floor_rat_numeral floor_neg_rat_numeral)

lemma binary64_25_02_times_100:
  "binary64 (176062597932515325 / 70368744177664)
   = Fin 2502"
  using binary64_eval [where q = "176062597932515325 / 70368744177664" and k = "- 41"
      and m = "5501956185391104"]
  by (simp add: round_half_even_def floor_rat_numeral floor_neg_rat_numeral)

lemma binary64_minus_0_12:
  "binary64 (- (3 / 25))
   = Fin (- (1080863910568919 / 9007199254740992))"
  using binary64_eval [where q = "- (3 / 25)" and k = "- 56"
      and m = "- 8646911284551352"]
  by (simp add: round_half_even_def floor_rat_numeral floor_neg_rat_numeral)

lemma binary64_minus_0_13:
  "binary64 (- (13 / 100))
   = Fin (- (1170935903116329 / 9007199254740992))"
  using binary64_eval [where q = "- (13 / 100)" and k = "- 55"
      and m = "- 4683743612465316"]
  by (simp add: round_half_even_def floor_rat_numeral floor_neg_rat_numeral)

lemma binary64_1_005_times_100:
  "binary64 (28288235159420925 / 281474976710656)
   = Fin (7072058789855231 / 70368744177664)"
  using binary64_eval [where q = "28288235159420925 / 281474976710656" and k = "- 46"
      and m = "7072058789855231"]
  by (simp add: round_half_even_def floor_rat_numeral floor_neg_rat_numeral)

lemma binary64_1_01:
  "binary64 (101 / 100)
   = Fin (4548635623644201 / 4503599627370496)"
  using binary64_eval [where q = "101 / 100" and k = "- 52"
      and m = "4548635623644201"]
  by (simp add: round_half_even_def floor_rat_numeral floor_neg_rat_numeral)

lemma binary64_0_015_times_100:
  "binary64 (27021597764222975 / 18014398509481984)
   = Fin (3 / 2)"
  using binary64_eval [where q = "27021597764222975 / 18014398509481984" and k = "- 52"
      and m = "6755399441055744"]
  by (simp add: round_half_even_def floor_rat_numeral floor_neg_rat_numeral)

lemma binary64_0_02:
  "binary64 (1 / 50)
   = Fin (5764607523034235 / 288230376151711744)"
  using binary64_eval [where q = "1 / 50" and k = "- 58"
      and m = "5764607523034235"]
  by (simp add: round_half_even_def floor_rat_numeral floor_neg_rat_numeral)

lemma binary64_0_01:
  "binary64 (1 / 100)
   = Fin (5764607523034235 / 576460752303423488)"
  using binary64_eval [where q = "1 / 100" and k = "- 59"
      and m = "5764607523034235"]
  by (simp add: round_half_even_def floor_rat_numeral floor_neg_rat_numeral)

lemma double_1e308_read: "binary64 (10 ^ 308) = Fin double_1e308"
  using binary64_eval [where q = "10 ^ 308" and k = 971 and m = 5010420900022432]
  by (simp add: round_half_even_def floor_rat_numeral double_1e308_def)

lemmas example_doubles = double_10_005_def binary64_10_005_times_100 binary64_10_01
  binary64_10_01_exact binary64_20_02_sum binary64_25_02_sum binary64_25_02
  binary64_25_02_times_100

subsection \<open>Responses\<close>

lemmas row_defs = floor_rat_numeral floor_neg_rat_numeral processRow_def dateValue_of_def
  decodeDate_def substring_def row_at_def resourceId_of_def resourceName_of_def cost_of_def
  round2_def column_or_NA_def tagsStr_of_def Object_keys_def Object_entries_def
  is_array_index_def is_digit_def decimal_val_def digit_val_def

lemmas sort_defs = Array_sort_def consistent_def stable_sort_def negative_def
  compareCostItems_def nsub_def

lemmas example_defs = example_engine_def example_params_def tagged_params_def

lemma example_arithmetic [simp]:
  "arithmetic example_engine = Binary64" "arithmetic exact_engine = Exact"
  by (simp_all add: example_engine_def exact_engine_def)

lemma example_localeCompare [simp]:
  "localeCompare example_engine a b = (if a < b then - 1 else if a = b then 0 else 1)"
  "localeCompare exact_engine a b = (if a < b then - 1 else if a = b then 0 else 1)"
  by (simp_all add: example_engine_def exact_engine_def)

lemma example_StringToNumber [simp]:
  "StringToNumber example_engine ''x'' = NaN"
  "StringToNumber exact_engine ''x'' = NaN"
  "StringToNumber exact_engine ''Infinity'' = PInf"
  "StringToNumber exact_engine ''-Infinity'' = NInf"
  by (simp_all add: example_engine_def exact_engine_def)

lemma example_sortOrder [simp]: "sortOrder example_engine cmp n = [0..<n]"
  by (simp add: example_engine_def)

lemma example_NumberToString:
  "NumberToString example_engine 20240101 = ''20240101''"
  "NumberToString example_engine 20240102 = ''20240102''"
  "NumberToString exact_engine 20240101 = ''20240101''"
  "NumberToString exact_engine 20240102 = ''20240102''"
  by (simp_all add: example_engine_def exact_engine_def)

lemma example_columnMap:
  "build_columnMap (columns example_costs)
   = [''PreTaxCost'' \<mapsto> 0, ''UsageDate'' \<mapsto> 1, ''ServiceName'' \<mapsto> 2, ''ResourceId'' \<mapsto> 3]"
  by (simp add: build_columnMap_def example_costs_def numeral_2_eq_2 numeral_3_eq_3)

lemma example_rows:
  "processRows example_engine (build_columnMap (columns example_costs)) Map.empty example_params
     (rows example_costs) ([], Fin 0)
   = Inr ([vm_item, vm_item, storage_item], binary64 (2502 / 100))"
  unfolding example_columnMap
  by (simp add: example_costs_def row_defs example_NumberToString example_params_def
      vm_item_def storage_item_def example_doubles)

lemma example_sorted:
  "Array_sort example_engine (compareCostItems example_engine) [vm_item, vm_item, storage_item]
   = [vm_item, vm_item, storage_item]"
  by (simp add: sort_defs vm_item_def storage_item_def binary64_10_01)

lemma example_total:
  "round2 Binary64 (binary64 (2502 / 100)) = binary64 (2502 / 100)"
  by (simp add: round2_def example_doubles floor_rat_numeral)

lemma tagged_columnMap:
  "build_columnMap (columns tagged_costs)
   = [''UsageDate'' \<mapsto> 0, ''ResourceId'' \<mapsto> 1, ''PreTaxCost'' \<mapsto> 2, ''ServiceName'' \<mapsto> 3,
      ''ResourceGroupName'' \<mapsto> 4, ''ResourceType'' \<mapsto> 5]"
  by (simp add: build_columnMap_def tagged_costs_def eval_nat_numeral)

lemma tagged_rows:
  "processRows example_engine (build_columnMap (columns tagged_costs)) example_tags tagged_params
     (rows tagged_costs) ([], Fin 0)
   = Inr ([myVM_item, disk_item, unnamed_item], Fin (79 / 4))"
  unfolding tagged_columnMap
  by (simp add: tagged_costs_def row_defs example_params_def tagged_params_def
      example_tags_def myVM_item_def disk_item_def unnamed_item_def)

lemma tagged_sorted:
  "Array_sort example_engine (compareCostItems example_engine)
     [myVM_item, disk_item, unnamed_item]
   = [disk_item, unnamed_item, myVM_item]"
  by (simp add: sort_defs myVM_item_def disk_item_def unnamed_item_def)

lemma one_vm_columnMap:
  "build_columnMap (columns one_vm_costs)
   = [''UsageDate'' \<mapsto> 0, ''ResourceId'' \<mapsto> 1, ''PreTaxCost'' \<mapsto> 2]"
  by (simp add: build_columnMap_def one_vm_costs_def eval_nat_numeral)

lemma one_vm_rows:
  "processRows example_engine (build_columnMap (columns one_vm_costs)) indexed_tags tagged_params
     (rows one_vm_costs) ([], Fin 0)
   = Inr ([\<lparr> Date = ''15-01-2024'', Cost_INR = Fin (15 / 2), ServiceName = String ''N/A'',
              ResourceName = ''myVM'', ResourceId = String ''/sub/rg/myVM'',
              ResourceGroupName = String ''N/A'', ResourceType = String ''N/A'',
              Tags = ''2024=x; Env=PRD'' \<rparr>], Fin (15 / 2))"
  unfolding one_vm_columnMap
  by (simp add: one_vm_costs_def row_defs example_params_def tagged_params_def
      indexed_tags_def)

lemma malformed_date_columnMap:
  "build_columnMap (columns malformed_date_costs) = [''UsageDate'' \<mapsto> 0, ''PreTaxCost'' \<mapsto> 1]"
  by (simp add: build_columnMap_def malformed_date_costs_def)

lemma malformed_date_rows:
  "processRows example_engine (build_columnMap (columns malformed_date_costs)) Map.empty
     example_params (rows malformed_date_costs) ([], Fin 0)
   = Inr ([\<lparr> Date = ''--abc'', Cost_INR = Fin 1, ServiceName = String ''N/A'',
              ResourceName = ''N/A'', ResourceId = String [],
              ResourceGroupName = String ''N/A'', ResourceType = String ''N/A'',
              Tags = ''No tags'' \<rparr>], Fin 1)"
  unfolding malformed_date_columnMap
  by (simp add: malformed_date_costs_def row_defs example_params_def)

lemma no_cost_columnMap:
  "build_columnMap (columns no_cost_column)
   = [''UsageDate'' \<mapsto> 0, ''ResourceId'' \<mapsto> 1, ''ServiceName'' \<mapsto> 2,
      ''ResourceGroupName'' \<mapsto> 3, ''ResourceType'' \<mapsto> 4]"
  by (simp add: build_columnMap_def no_cost_column_def eval_nat_numeral)

lemma no_cost_rows:
  "processRows example_engine (build_columnMap (columns no_cost_column)) Map.empty
     example_params (rows no_cost_column) ([], Fin 0)
   = Inr ([\<lparr> Date = ''15-01-2024'', Cost_INR = NaN, ServiceName = String ''VM'',
              ResourceName = ''myVM'', ResourceId = String ''/sub/rg/myVM'',
              ResourceGroupName = String ''rg'', ResourceType = String ''vm'',
              Tags = ''No tags'' \<rparr>], NaN)"
  unfolding no_cost_columnMap
  by (simp add: no_cost_column_def row_defs example_params_def)

lemma cost_columnMap:
  "build_columnMap [''PreTaxCost''] = [''PreTaxCost'' \<mapsto> 0]"
  by (simp add: build_columnMap_def)

lemma dated_columnMap:
  "build_columnMap [''UsageDate'', ''PreTaxCost''] = [''UsageDate'' \<mapsto> 0, ''PreTaxCost'' \<mapsto> 1]"
  by (simp add: build_columnMap_def)

lemma cost_only_rows:
  "processRows example_engine [''PreTaxCost'' \<mapsto> 0] Map.empty example_params
     [[Number (Fin x)]] ([], Fin 0)
   = Inr ([\<lparr> Date = ''Unknown'', Cost_INR = round2 Binary64 (Fin x),
              ServiceName = String ''N/A'', ResourceName = ''N/A'', ResourceId = String [],
              ResourceGroupName = String ''N/A'', ResourceType = String ''N/A'',
              Tags = ''No tags'' \<rparr>], nadd Binary64 (Fin 0) (round2 Binary64 (Fin x)))"
  by (simp add: processRow_def dateValue_of_def resourceId_of_def resourceName_of_def
      cost_of_def row_at_def column_or_NA_def tagsStr_of_def example_params_def)

lemma negative_tie_cost: "round2 Binary64 (Fin (- 1 / 8)) = binary64 (- 12 / 100)"
  by (simp add: round2_def)

lemma below_tie_cost: "round2 Binary64 (Fin double_1_005) = Fin 1"
  by (simp add: round2_def double_1_005_def binary64_1_005_times_100 floor_rat_numeral)

lemma product_tie_cost: "round2 Binary64 (Fin double_0_015) = binary64 (2 / 100)"
  by (simp add: round2_def double_0_015_def binary64_0_015_times_100 floor_rat_numeral)

lemma overflow_cost: "round2 Binary64 (Fin double_1e308) = PInf"
  by (simp add: round2_def double_1e308_def binary64_overflow)

lemma nan_cost_rows:
  "processRows example_engine (build_columnMap (columns nan_cost_costs)) Map.empty
     example_params (rows nan_cost_costs) ([], Fin 0)
   = Inr ([dated_item (Fin 1), dated_item NaN, dated_item (Fin 2)], NaN)"
  unfolding nan_cost_costs_def costResponse.simps dated_columnMap
  by (simp add: row_defs example_params_def dated_item_def)

lemma nan_cost_sorted:
  "Array_sort example_engine (compareCostItems example_engine) ([dated_item (Fin 1), dated_item NaN, dated_item (Fin 2)])
   = [dated_item (Fin 1), dated_item NaN, dated_item (Fin 2)]"
  by (simp add: sort_defs Let_def eval_nat_numeral dated_item_def)

text \<open>In exact arithmetic.\<close>

lemmas daily_defs = dailyCosts_of_def add_cost_def inherited_names_def Object_entries_def
  is_array_index_def is_digit_def rounded_def round2_def floor_rat_numeral

lemma dropped_nan_rows:
  "processRows exact_engine (build_columnMap (columns dropped_nan_costs)) Map.empty
     example_params (rows dropped_nan_costs) ([], Fin 0)
   = Inr ([dated_item NaN, dated_item (Fin 2)], NaN)"
  unfolding dropped_nan_costs_def costResponse.simps dated_columnMap
  by (simp add: row_defs example_params_def dated_item_def)

lemma dropped_nan_sorted:
  "Array_sort exact_engine (compareCostItems exact_engine) ([dated_item NaN, dated_item (Fin 2)])
   = [dated_item NaN, dated_item (Fin 2)]"
  by (simp add: sort_defs dated_item_def)

lemma dropped_nan_daily:
  "map (rounded exact_engine)
     (Array_sort exact_engine (by_key exact_engine)
        (Object_entries (dailyCosts_of exact_engine ([dated_item NaN, dated_item (Fin 2)]))))
   = [(''15-01-2024'', Fin 2)]"
  by (simp add: daily_defs dated_item_def Array_sort_single)

lemma infinite_rows:
  "processRows exact_engine (build_columnMap (columns infinite_costs)) Map.empty
     example_params (rows infinite_costs) ([], Fin 0)
   = Inr ([dated_item PInf, dated_item NInf, dated_item NInf], NaN)"
  unfolding infinite_costs_def costResponse.simps dated_columnMap
  by (simp add: row_defs example_params_def dated_item_def)

lemma infinite_sorted:
  "Array_sort exact_engine (compareCostItems exact_engine) ([dated_item PInf, dated_item NInf, dated_item NInf])
   = [dated_item PInf, dated_item NInf, dated_item NInf]"
  by (simp add: sort_defs dated_item_def)

lemma infinite_daily:
  "map (rounded exact_engine)
     (Array_sort exact_engine (by_key exact_engine)
        (Object_entries (dailyCosts_of exact_engine ([dated_item PInf, dated_item NInf, dated_item NInf]))))
   = [(''15-01-2024'', NInf)]"
  by (simp add: daily_defs dated_item_def Array_sort_single)

lemma exact_rows:
  "processRows exact_engine (build_columnMap (columns example_costs)) Map.empty example_params
     (rows example_costs) ([], Fin 0)
   = Inr ([vm_item \<lparr> Cost_INR := Fin (1001 / 100) \<rparr>, vm_item \<lparr> Cost_INR := Fin (1001 / 100) \<rparr>,
           storage_item], Fin (2502 / 100))"
  unfolding example_columnMap
  by (simp add: example_costs_def row_defs example_NumberToString example_params_def
      vm_item_def storage_item_def double_10_005_def)

lemma exact_sorted:
  "Array_sort exact_engine (compareCostItems exact_engine)
     [vm_item \<lparr> Cost_INR := Fin (1001 / 100) \<rparr>, vm_item \<lparr> Cost_INR := Fin (1001 / 100) \<rparr>,
      storage_item]
   = [vm_item \<lparr> Cost_INR := Fin (1001 / 100) \<rparr>, vm_item \<lparr> Cost_INR := Fin (1001 / 100) \<rparr>,
      storage_item]"
  by (simp add: sort_defs vm_item_def storage_item_def)

lemma exact_daily:
  "map (rounded exact_engine)
     (Array_sort exact_engine (by_key exact_engine)
        (Object_entries (dailyCosts_of exact_engine
           [vm_item \<lparr> Cost_INR := Fin (1001 / 100) \<rparr>, vm_item \<lparr> Cost_INR := Fin (1001 / 100) \<rparr>,
            storage_item])))
   = [(''01-01-2024'', Fin (2002 / 100)), (''02-01-2024'', Fin 5)]"
  by (simp add: daily_defs sort_defs by_key_def vm_item_def storage_item_def)

lemma exact_costs_finite:
  "list_all (\<lambda>row. finite_number (cost_of exact_engine (build_columnMap (columns example_costs)) row))
     (rows example_costs)"
  unfolding example_columnMap
  by (simp add: example_costs_def cost_of_def row_at_def round2_def)

text \<open>A service whose name is an inherited name: its bucket is a string, its cost \<open>NaN\<close>.\<close>

lemma inherited_service_name:
  "map (rounded example_engine)
     (Object_entries (serviceCosts_of example_engine
        [dated_item (Fin 5) \<lparr> ServiceName := String ''toString'' \<rparr>]))
   = [(''toString'', NaN)]"
  by (simp add: serviceCosts_of_def daily_defs dated_item_def)

subsection \<open>Requests\<close>

lemma empty_date_parsed:
  "parse_body example_engine empty_date_event = BObject [(''start_date'', String [])]"
  by (simp add: parse_body_def empty_date_event_def example_engine_def empty_date_body_def
      quoted_def)

lemma march_parsed:
  "parse_body example_engine march_event
   = BObject [(''start_date'', String ''2024-03-01''), (''include_tags'', Bool False)]"
  by (simp add: parse_body_def march_event_def example_engine_def empty_date_body_def
      march_body_def quoted_def)

lemma shadowing_parsed:
  "parse_body example_engine shadowing_event
   = BObject [(''start_date'', String ''2024-03-01''), (''hasOwnProperty'', Number (Fin 1))]"
  by (simp add: parse_body_def shadowing_event_def example_engine_def empty_date_body_def
      march_body_def shadowing_body_def quoted_def)


section \<open>The claims\<close>

subsection \<open>C1: rounding of the cost of a row, and the total\<close>

text \<open>
  Claim C1 says that the cost of a row is the raw value rounded to two decimal places
  with a tie going away from zero. The program computes
  \<^verbatim>\<open>Math.round(x * 100) / 100\<close> on doubles. \<^verbatim>\<open>Math.round\<close> sends a tie towards
  \<open>+\<infinity>\<close>: the raw cost \<open>-0.125\<close>, which is a double, gives \<open>-0.12\<close>, where rounding
  away from zero gives \<open>-0.13\<close>. And what is rounded is the double product: the numeral
  \<^verbatim>\<open>1.005\<close> is read as a double below it, whose product by 100 lies below 100.5, so
  the cost is 1 where the decimal 1.005 rounds to 1.01; the numeral \<^verbatim>\<open>0.015\<close> is read
  as a double below it, whose product by 100 is rounded to the double 1.5, so the cost
  is 0.02 where the raw double rounds to 0.01; and the product of the double read from
  \<^verbatim>\<open>1e308\<close> by 100 is no finite double, so the cost is \<open>+\<infinity>\<close>.
\<close>

theorem cost_not_rounded_half_away_from_zero:
  "map_sum id (map Cost_INR \<circ> detailed_costs)
     (processCostData example_engine negative_tie_costs Map.empty example_params)
   = Inr [binary64 (- 12 / 100)]
   \<and> round_half_away_from_zero (- 1 / 8) = - 13 / 100
   \<and> binary64 (- 12 / 100) \<noteq> binary64 (- 13 / 100)
   \<and> binary64 (1005 / 1000) = Fin double_1_005
   \<and> map_sum id (map Cost_INR \<circ> detailed_costs)
       (processCostData example_engine below_tie_costs Map.empty example_params)
     = Inr [Fin 1]
   \<and> round_half_away_from_zero (1005 / 1000) = 101 / 100
   \<and> binary64 (101 / 100) \<noteq> Fin 1
   \<and> binary64 (15 / 1000) = Fin double_0_015
   \<and> map_sum id (map Cost_INR \<circ> detailed_costs)
       (processCostData example_engine product_tie_costs Map.empty example_params)
     = Inr [binary64 (2 / 100)]
   \<and> round_half_away_from_zero double_0_015 = 1 / 100
   \<and> binary64 (2 / 100) \<noteq> binary64 (1 / 100)
   \<and> binary64 (10 ^ 308) = Fin double_1e308
   \<and> map_sum id (map Cost_INR \<circ> detailed_costs)
       (processCostData example_engine overflow_costs Map.empty example_params)
     = Inr [PInf]"
proof -
  have negative: "map_sum id (map Cost_INR \<circ> detailed_costs)
     (processCostData example_engine negative_tie_costs Map.empty example_params)
   = Inr [binary64 (- 12 / 100)]"
    unfolding processCostData_def Let_def negative_tie_costs_def costResponse.simps
      cost_columnMap cost_only_rows negative_tie_cost sum.case prod.case Array_sort_single
    by simp
  have below: "map_sum id (map Cost_INR \<circ> detailed_costs)
       (processCostData example_engine below_tie_costs Map.empty example_params)
     = Inr [Fin 1]"
    unfolding processCostData_def Let_def below_tie_costs_def costResponse.simps
      cost_columnMap cost_only_rows below_tie_cost sum.case prod.case Array_sort_single
    by simp
  have product: "map_sum id (map Cost_INR \<circ> detailed_costs)
       (processCostData example_engine product_tie_costs Map.empty example_params)
     = Inr [binary64 (2 / 100)]"
    unfolding processCostData_def Let_def product_tie_costs_def costResponse.simps
      cost_columnMap cost_only_rows product_tie_cost sum.case prod.case Array_sort_single
    by simp
  have overflow: "map_sum id (map Cost_INR \<circ> detailed_costs)
       (processCostData example_engine overflow_costs Map.empty example_params)
     = Inr [PInf]"
    unfolding processCostData_def Let_def overflow_costs_def costResponse.simps
      cost_columnMap cost_only_rows overflow_cost sum.case prod.case Array_sort_single
    by simp
  have away: "round_half_away_from_zero (- 1 / 8) = - 13 / 100"
    "round_half_away_from_zero (1005 / 1000) = 101 / 100"
    "round_half_away_from_zero double_0_015 = 1 / 100"
    by (simp_all add: round_half_away_from_zero_def floor_rat_numeral double_0_015_def)
  have differ: "binary64 (- 12 / 100) \<noteq> binary64 (- 13 / 100)"
    "binary64 (101 / 100) \<noteq> Fin 1"
    "binary64 (2 / 100) \<noteq> binary64 (1 / 100)"
    by (simp_all add: binary64_minus_0_12 binary64_minus_0_13 binary64_1_01 binary64_0_02
        binary64_0_01)
  from negative below product overflow away differ double_1_005_read double_0_015_read
    double_1e308_read
  show ?thesis by (simp only: simp_thms)
qed

text \<open>
  Claim C1, amended. Whenever the response is processed without an error, in the
  arithmetic of the engine (that of doubles, in JavaScript): the costs of the records
  are the costs of the rows; the cost of a row whose raw \<^verbatim>\<open>PreTaxCost\<close> is the number
  \<open>x\<close> is the quotient \<open>n / 100\<close> rounded to a double, where \<open>n\<close> is the integer
  nearest to \<open>y\<close>, a tie going towards \<open>+\<infinity>\<close>, and \<open>y\<close> is the product
  \<open>x * 100\<close> rounded to a double (and it is the infinity that the product overflows
  to); and \<^verbatim>\<open>total_cost\<close> is \<^verbatim>\<open>Math.round(T * 100) / 100\<close> of the running sum
  \<open>T\<close> of the costs of the rows, each rounded before it is added, in the order of the
  rows. Three rows of 10.005, 10.005 and 5 give the total 25.02 (the witness).
\<close>

theorem per_row_rounding_then_sum:
  assumes "processCostData eng costResp resourceTags p = Inr r"
  shows "mset (map Cost_INR (detailed_costs r))
       = mset (map (cost_of eng (build_columnMap (columns costResp))) (rows costResp))
     \<and> (\<forall>row x y. row_at row (build_columnMap (columns costResp) ''PreTaxCost'')
                     = Number (Fin x)
                   \<and> fl (arithmetic eng) (x * 100) = Fin y
          \<longrightarrow> cost_of eng (build_columnMap (columns costResp)) row
               = fl (arithmetic eng) (of_int \<lfloor>y + 1 / 2\<rfloor> / 100))
     \<and> (\<forall>row x. row_at row (build_columnMap (columns costResp) ''PreTaxCost'')
                   = Number (Fin x)
                 \<and> fl (arithmetic eng) (x * 100) = PInf
          \<longrightarrow> cost_of eng (build_columnMap (columns costResp)) row = PInf)
     \<and> (\<forall>row x. row_at row (build_columnMap (columns costResp) ''PreTaxCost'')
                   = Number (Fin x)
                 \<and> fl (arithmetic eng) (x * 100) = NInf
          \<longrightarrow> cost_of eng (build_columnMap (columns costResp)) row = NInf)
     \<and> total_cost (summary r)
       = round2 (arithmetic eng)
           (nsum (arithmetic eng)
              (map (cost_of eng (build_columnMap (columns costResp))) (rows costResp)))"
proof -
  let ?cm = "build_columnMap (columns costResp)"
  let ?ar = "arithmetic eng"
  from processCostData_Inr [OF assms] obtain items where
    items: "map (processRow eng ?cm resourceTags p) (rows costResp) = map Inr items"
    and dc: "detailed_costs r = Array_sort eng (compareCostItems eng) items"
    and sm: "summary r = createSummary eng (detailed_costs r)
               (nsum ?ar (map (cost_of eng ?cm) (rows costResp))) p"
    by blast
  have perm: "mset (detailed_costs r) = mset items"
    by (simp add: dc mset_Array_sort)
  have costs: "map Cost_INR items = map (cost_of eng ?cm) (rows costResp)"
    by (rule map_Inr_costs [OF items])
  have "mset (map Cost_INR (detailed_costs r)) = mset (map Cost_INR items)"
    using perm by (metis mset_map)
  with costs have first: "mset (map Cost_INR (detailed_costs r))
      = mset (map (cost_of eng ?cm) (rows costResp))"
    by simp
  have second: "\<forall>row x y. row_at row (?cm ''PreTaxCost'') = Number (Fin x)
        \<and> fl ?ar (x * 100) = Fin y
      \<longrightarrow> cost_of eng ?cm row = fl ?ar (of_int \<lfloor>y + 1 / 2\<rfloor> / 100)"
    by (simp add: cost_of_number)
  have third: "\<forall>row x. row_at row (?cm ''PreTaxCost'') = Number (Fin x)
        \<and> fl ?ar (x * 100) = PInf
      \<longrightarrow> cost_of eng ?cm row = PInf"
    by (simp add: cost_of_overflow)
  have fourth: "\<forall>row x. row_at row (?cm ''PreTaxCost'') = Number (Fin x)
        \<and> fl ?ar (x * 100) = NInf
      \<longrightarrow> cost_of eng ?cm row = NInf"
    by (simp add: cost_of_overflow)
  have "length (detailed_costs r) = length (rows costResp)"
    using perm map_Inr_nth(1) [OF items] by (metis size_mset)
  then have "(detailed_costs r = []) = (rows costResp = [])" by (metis length_0_conv)
  moreover have "rows costResp = []
      \<Longrightarrow> round2 ?ar (nsum ?ar (map (cost_of eng ?cm) (rows costResp))) = Fin 0"
    by (simp add: nsum_def round2_zero)
  ultimately have fifth: "total_cost (summary r)
      = round2 ?ar (nsum ?ar (map (cost_of eng ?cm) (rows costResp)))"
    using sm by (simp add: total_cost_rounded)
  from first second third fourth fifth show ?thesis by blast
qed

theorem per_row_rounding_then_sum_witness:
  "binary64 (10005 / 1000) = Fin double_10_005
   \<and> fl Binary64 (double_10_005 * 100) = Fin (8800491068719105 / 8796093022208)
   \<and> \<lfloor>8800491068719105 / 8796093022208 + 1 / 2 :: rat\<rfloor> = 1001
   \<and> (\<exists>r. processCostData example_engine example_costs Map.empty example_params = Inr r
        \<and> map Cost_INR (detailed_costs r) = [binary64 (1001 / 100), binary64 (1001 / 100), Fin 5]
        \<and> total_cost (summary r)
          = round2 Binary64 (nsum Binary64 [binary64 (1001 / 100), binary64 (1001 / 100), Fin 5])
        \<and> total_cost (summary r) = binary64 (2502 / 100))"
proof -
  from processCostData_rows [OF example_rows] obtain r where
    r: "processCostData example_engine example_costs Map.empty example_params = Inr r"
    and dc: "detailed_costs r = [vm_item, vm_item, storage_item]"
    by (auto simp add: example_sorted)
  have rows: "map (cost_of example_engine (build_columnMap (columns example_costs)))
      (rows example_costs) = [binary64 (1001 / 100), binary64 (1001 / 100), Fin 5]"
    unfolding example_columnMap
    by (simp add: example_costs_def cost_of_def row_at_def round2_def example_doubles
        floor_rat_numeral)
  from per_row_rounding_then_sum [OF r] rows
  have total: "total_cost (summary r)
      = round2 Binary64 (nsum Binary64 [binary64 (1001 / 100), binary64 (1001 / 100), Fin 5])"
    by simp
  have "nsum Binary64 [binary64 (1001 / 100), binary64 (1001 / 100), Fin 5]
      = binary64 (2502 / 100)"
    by (simp add: nsum_def example_doubles)
  with total have "total_cost (summary r) = round2 Binary64 (binary64 (2502 / 100))"
    by (simp only:)
  then have rounded_total: "total_cost (summary r) = binary64 (2502 / 100)"
    by (simp only: example_total)
  have costs: "map Cost_INR (detailed_costs r)
      = [binary64 (1001 / 100), binary64 (1001 / 100), Fin 5]"
    by (simp add: dc vm_item_def storage_item_def)
  have product: "fl Binary64 (double_10_005 * 100) = Fin (8800491068719105 / 8796093022208)"
    "\<lfloor>8800491068719105 / 8796093022208 + 1 / 2 :: rat\<rfloor> = 1001"
    by (simp_all add: example_doubles floor_rat_numeral)
  from r costs total rounded_total have "\<exists>r. processCostData example_engine example_costs Map.empty
        example_params = Inr r
      \<and> map Cost_INR (detailed_costs r) = [binary64 (1001 / 100), binary64 (1001 / 100), Fin 5]
      \<and> total_cost (summary r)
        = round2 Binary64 (nsum Binary64 [binary64 (1001 / 100), binary64 (1001 / 100), Fin 5])
      \<and> total_cost (summary r) = binary64 (2502 / 100)"
    by - (rule exI [of _ r], intro conjI, assumption+)
  with product double_10_005_read show ?thesis by - (intro conjI, assumption+)
qed

subsection \<open>C2: decoding of the date\<close>

text \<open>
  Claim C2 (a defect of the program). The date of a row is cut out of the string of its
  \<^verbatim>\<open>UsageDate\<close> by position, and nothing in the cutting throws, so the \<^verbatim>\<open>catch\<close>
  block that sets \<^verbatim>\<open>'Unknown'\<close> is dead: the raw value \<^verbatim>\<open>"abc"\<close> gives the date
  \<^verbatim>\<open>"--abc"\<close>, not \<^verbatim>\<open>"Unknown"\<close>.
\<close>

theorem malformed_date_not_Unknown:
  "map_sum id (map Date \<circ> detailed_costs)
     (processCostData example_engine malformed_date_costs Map.empty example_params)
   = Inr [''--abc'']"
  unfolding processCostData_def Let_def malformed_date_rows sum.case prod.case
    Array_sort_single
  by simp

text \<open>The part of the claim that holds: a string of eight characters is decoded.\<close>

lemma decodeDate_eight:
  "length s = 8 \<Longrightarrow> decodeDate s = drop 6 s @ ''-'' @ take 2 (drop 4 s) @ ''-'' @ take 4 s"
  by (simp add: decodeDate_def substring_def)

lemma decodeDate_example: "decodeDate ''20240115'' = ''15-01-2024''"
  by (simp add: decodeDate_def substring_def)

subsection \<open>C3: the order of the validation rules\<close>



lemma tagged_params_valid: "validateParameters example_engine tagged_params = None"
  by (simp add: validateParameters_def example_defs daysDiff_def nsub_def timeRegex_test_def
      hour_ok_def sixty_ok_def is_digit_def floor_rat_numeral)

subsection \<open>C4: the order of the records\<close>

text \<open>
  Claim C4 says that the records come out sorted by date string and, within one date
  string, by cost descending. A cost that is \<open>NaN\<close> compares as equal to every other
  cost of its date, which makes the comparator inconsistent when two of these differ, and
  then the order is the engine's: of three rows of one date with the raw costs 1,
  \<^verbatim>\<open>'x'\<close> and 2 the records stay in this order, the cost 1 before the cost 2.
\<close>

theorem nan_cost_leaves_costs_unsorted:
  "map_sum id (map (\<lambda>item. (Date item, Cost_INR item)) \<circ> detailed_costs)
     (processCostData example_engine nan_cost_costs Map.empty example_params)
   = Inr [(''15-01-2024'', Fin 1), (''15-01-2024'', NaN), (''15-01-2024'', Fin 2)]
   \<and> map_sum id
       (\<lambda>r. sorted_wrt (\<lambda>a b. Date a < Date b
                              \<or> (Date a = Date b \<and> nle (Cost_INR b) (Cost_INR a)))
              (detailed_costs r))
       (processCostData example_engine nan_cost_costs Map.empty example_params)
     = Inr False"
  unfolding processCostData_def Let_def nan_cost_rows sum.case prod.case nan_cost_sorted
  by (simp add: dated_item_def nle_def)

text \<open>
  Claim C4, amended. When \<^verbatim>\<open>localeCompare\<close> compares the dates of the records as the
  plain comparison of strings, character by character, does (negative when the first is
  the smaller, positive when it is the greater, as it is for dates of the form
  \<^verbatim>\<open>DD-MM-YYYY\<close>), and the cost of no record is \<open>NaN\<close>, the records come out sorted
  by the date string ascending and, within one date string, by cost descending. The order
  of the date strings is not the order of the days: in the witness \<^verbatim>\<open>02-02-2024\<close>
  precedes \<^verbatim>\<open>15-01-2024\<close>.
\<close>

theorem detailed_costs_sorted:
  assumes "processCostData eng costResp resourceTags p = Inr r"
    and "\<forall>a\<in>set (detailed_costs r). \<forall>b\<in>set (detailed_costs r).
           (localeCompare eng (Date a) (Date b) < 0) = (Date a < Date b)
           \<and> (0 < localeCompare eng (Date a) (Date b)) = (Date b < Date a)"
    and "list_all (\<lambda>item. Cost_INR item \<noteq> NaN) (detailed_costs r)"
  shows "sorted_wrt (\<lambda>a b. Date a < Date b
                        \<or> (Date a = Date b \<and> nle (Cost_INR b) (Cost_INR a)))
           (detailed_costs r)"
proof -
  let ?cm = "build_columnMap (columns costResp)"
  let ?lt = "\<lambda>a b. Date a < Date b \<or> (Date a = Date b \<and> nless (Cost_INR b) (Cost_INR a))"
  let ?le = "\<lambda>a b. Date a < Date b \<or> (Date a = Date b \<and> nle (Cost_INR b) (Cost_INR a))"
  from processCostData_Inr [OF assms(1)] obtain items where
    items: "map (processRow eng ?cm resourceTags p) (rows costResp) = map Inr items"
    and dc: "detailed_costs r = Array_sort eng (compareCostItems eng) items"
    by blast
  have sets: "set (detailed_costs r) = set items"
    by (simp add: dc set_Array_sort)
  have number: "\<And>a. a \<in> set items \<Longrightarrow> Cost_INR a \<noteq> NaN"
    using assms(3) sets by (auto simp add: list_all_iff)
  have grid: "\<And>a x. a \<in> set items \<Longrightarrow> Cost_INR a = Fin x
      \<Longrightarrow> arithmetic eng = Exact \<or> (\<exists>n::int. x = of_int n * least_double)"
  proof -
    fix a x assume "a \<in> set items" and x: "Cost_INR a = Fin x"
    from map_Inr_member [OF items this(1)] obtain row where
      "processRow eng ?cm resourceTags p row = Inr a"
      by blast
    from processRow_Inr(2) [OF this] x
    have "round2 (arithmetic eng) (ToNumber eng (row_at row (?cm ''PreTaxCost''))) = Fin x"
      by (simp add: cost_of_def)
    then show "arithmetic eng = Exact \<or> (\<exists>n::int. x = of_int n * least_double)"
      by (rule round2_grid)
  qed
  have sign: "\<And>a b. a \<in> set items \<Longrightarrow> b \<in> set items
      \<Longrightarrow> cmp_sign (compareCostItems eng a b)
          = (if ?lt a b then - 1 else if ?lt b a then 1 else 0)"
  proof -
    fix a b assume a: "a \<in> set items" and b: "b \<in> set items"
    show "cmp_sign (compareCostItems eng a b)
        = (if ?lt a b then - 1 else if ?lt b a then 1 else 0)"
    proof (cases "Date a = Date b")
      case True
      from nsub_sign [OF number [OF a] number [OF b] grid [OF a] grid [OF b]] True
      show ?thesis by (simp add: compareCostItems_def nless_irrefl)
    next
      case False
      from assms(2) sets a b
      have "(localeCompare eng (Date a) (Date b) < 0) = (Date a < Date b)"
        "(0 < localeCompare eng (Date a) (Date b)) = (Date b < Date a)"
        by blast+
      with False show ?thesis by (auto simp add: compareCostItems_def)
    qed
  qed
  have "sorted_wrt (\<lambda>a b. \<not> ?lt b a) (Array_sort eng (compareCostItems eng) items)"
  proof (rule strict_weak_order_sorted(2) [where lt = ?lt])
    fix a b assume "a \<in> set items" "b \<in> set items"
    then show "cmp_sign (compareCostItems eng a b)
        = (if ?lt a b then - 1 else if ?lt b a then 1 else 0)"
      by (rule sign)
  next
    fix a assume "a \<in> set items"
    show "\<not> ?lt a a" by (simp add: nless_irrefl)
  next
    fix a b c assume "a \<in> set items" "b \<in> set items" "c \<in> set items" "?lt a b" "?lt b c"
    then show "?lt a c" using nless_trans [of "Cost_INR c" "Cost_INR b" "Cost_INR a"] by auto
  next
    fix a b c assume abc: "a \<in> set items" "b \<in> set items" "c \<in> set items"
      and "\<not> ?lt a b" "\<not> ?lt b c"
    then show "\<not> ?lt a c"
      using nless_negtrans [OF number [OF abc(2)], of "Cost_INR c" "Cost_INR a"] by auto
  qed
  then have "sorted_wrt (\<lambda>a b. \<not> ?lt b a) (detailed_costs r)" by (simp add: dc)
  moreover have "\<And>a b. a \<in> set (detailed_costs r) \<Longrightarrow> b \<in> set (detailed_costs r)
      \<Longrightarrow> \<not> ?lt b a \<Longrightarrow> ?le a b"
    using number sets by (auto simp add: nle_def)
  ultimately show ?thesis by (rule sorted_wrt_mono_rel [rotated])
qed

theorem detailed_costs_sorted_witness:
  "\<exists>r. processCostData example_engine tagged_costs example_tags tagged_params = Inr r
     \<and> map Date (detailed_costs r) = [''02-02-2024'', ''15-01-2024'', ''15-01-2024'']
     \<and> map Cost_INR (detailed_costs r) = [Fin 3, Fin (37 / 4), Fin (15 / 2)]
     \<and> sorted_wrt (\<lambda>a b. Date a < Date b
                        \<or> (Date a = Date b \<and> nle (Cost_INR b) (Cost_INR a)))
         (detailed_costs r)"
proof -
  from processCostData_rows [OF tagged_rows] obtain r where
    r: "processCostData example_engine tagged_costs example_tags tagged_params = Inr r"
    and dc: "detailed_costs r = [disk_item, unnamed_item, myVM_item]"
    by (auto simp add: tagged_sorted)
  have compare: "\<forall>a\<in>set (detailed_costs r). \<forall>b\<in>set (detailed_costs r).
      (localeCompare example_engine (Date a) (Date b) < 0) = (Date a < Date b)
      \<and> (0 < localeCompare example_engine (Date a) (Date b)) = (Date b < Date a)"
    by auto
  have numbers: "list_all (\<lambda>item. Cost_INR item \<noteq> NaN) (detailed_costs r)"
    by (simp add: dc myVM_item_def disk_item_def unnamed_item_def)
  have fields: "map Date (detailed_costs r) = [''02-02-2024'', ''15-01-2024'', ''15-01-2024'']"
    "map Cost_INR (detailed_costs r) = [Fin 3, Fin (37 / 4), Fin (15 / 2)]"
    by (simp_all add: dc myVM_item_def disk_item_def unnamed_item_def)
  from detailed_costs_sorted [OF r compare numbers] fields r
  show ?thesis by (intro exI [of _ r]) simp
qed

subsection \<open>C5: the tags of a record\<close>

text \<open>
  Claim C5 says that the tags of a resource are joined in insertion order.
  \<^verbatim>\<open>Object.entries\<close> lists a key that is an array index before every other key: the
  tags \<^verbatim>\<open>{Env: "PRD", "2024": "x"}\<close> give \<^verbatim>\<open>"2024=x; Env=PRD"\<close>, where insertion order
  gives \<^verbatim>\<open>"Env=PRD; 2024=x"\<close>.
\<close>

theorem index_tag_comes_first:
  "indexed_tags ''/sub/rg/myVM'' = Some [(''Env'', ''PRD''), (''2024'', ''x'')]
   \<and> map_sum id (map Tags \<circ> detailed_costs)
       (processCostData example_engine one_vm_costs indexed_tags tagged_params)
     = Inr [''2024=x; Env=PRD'']
   \<and> join ''; '' (map (\<lambda>(k, v). k @ ''='' @ v) [(''Env'', ''PRD''), (''2024'', ''x'')])
     = ''Env=PRD; 2024=x''"
proof -
  have "map_sum id (map Tags \<circ> detailed_costs)
       (processCostData example_engine one_vm_costs indexed_tags tagged_params)
     = Inr [''2024=x; Env=PRD'']"
    unfolding processCostData_def Let_def one_vm_rows sum.case prod.case Array_sort_single
    by simp
  then show ?thesis by (simp add: indexed_tags_def)
qed

text \<open>
  Claim C5, amended. For every record: when \<^verbatim>\<open>include_tags\<close> is false the tags are
  \<^verbatim>\<open>"No tags"\<close>, whatever the tag map holds; when the resource id is the empty string
  they are \<^verbatim>\<open>"No tags"\<close>; when the tag map has no entry for the resource id, or an
  empty one, they are \<^verbatim>\<open>"No tags"\<close>; otherwise they are the entries as
  \<^verbatim>\<open>Object.entries\<close> lists them (the keys that are array indices first, in ascending
  numeric order, then the other keys in insertion order), each as \<^verbatim>\<open>K=V\<close>, joined by
  \<^verbatim>\<open>"; "\<close>. For tags none of whose keys is an array index this is insertion order:
  \<^verbatim>\<open>{Env: "PRD", Team: "Eng"}\<close> gives \<^verbatim>\<open>"Env=PRD; Team=Eng"\<close> (the witness).
\<close>

theorem tags_of_records:
  assumes "processCostData eng costResp resourceTags p = Inr r"
    and "item \<in> set (detailed_costs r)"
  shows "(\<not> include_tags p \<longrightarrow> Tags item = ''No tags'')
   \<and> (ResourceId item = String [] \<longrightarrow> Tags item = ''No tags'')
   \<and> (\<forall>rid. ResourceId item = String rid
           \<and> (resourceTags rid = None \<or> resourceTags rid = Some [])
        \<longrightarrow> Tags item = ''No tags'')
   \<and> (\<forall>rid t. include_tags p \<and> ResourceId item = String rid \<and> rid \<noteq> []
           \<and> resourceTags rid = Some t \<and> t \<noteq> []
        \<longrightarrow> Tags item = join ''; '' (map (\<lambda>(k, v). k @ ''='' @ v) (Object_entries t)))
   \<and> (\<forall>t :: string object. list_all (\<lambda>e. \<not> is_array_index (fst e)) t
        \<longrightarrow> Object_entries t = t)"
proof -
  let ?cm = "build_columnMap (columns costResp)"
  from processCostData_Inr [OF assms(1)] obtain items where
    items: "map (processRow eng ?cm resourceTags p) (rows costResp) = map Inr items"
    and dc: "detailed_costs r = Array_sort eng (compareCostItems eng) items"
    by blast
  from assms(2) dc have "item \<in> set items" by (simp add: set_Array_sort)
  from map_Inr_member [OF items this] obtain row where
    row: "processRow eng ?cm resourceTags p row = Inr item"
    by blast
  have "Tags item = tagsStr_of eng resourceTags p (ResourceId item)"
    using processRow_Inr(3,4) [OF row] by simp
  moreover have "\<forall>t :: string object. list_all (\<lambda>e. \<not> is_array_index (fst e)) t
      \<longrightarrow> Object_entries t = t"
    by (simp add: Object_entries_no_index)
  ultimately show ?thesis
    using tagsStr_of_cases [of p eng resourceTags "ResourceId item"] by simp
qed

theorem tags_of_records_witness:
  "\<exists>r. processCostData example_engine tagged_costs example_tags tagged_params = Inr r
     \<and> myVM_item \<in> set (detailed_costs r)
     \<and> ResourceId myVM_item = String ''/sub/rg/myVM''
     \<and> example_tags ''/sub/rg/myVM'' = Some [(''Env'', ''PRD''), (''Team'', ''Eng'')]
     \<and> Tags myVM_item
       = join ''; '' (map (\<lambda>(k, v). k @ ''='' @ v)
           (Object_entries [(''Env'', ''PRD''), (''Team'', ''Eng'')]))
     \<and> Tags myVM_item = ''Env=PRD; Team=Eng''
     \<and> unnamed_item \<in> set (detailed_costs r)
     \<and> ResourceId unnamed_item = String []
     \<and> example_tags [] = Some [(''Env'', ''none'')]
     \<and> Tags unnamed_item = ''No tags''"
proof -
  from processCostData_rows [OF tagged_rows] obtain r where
    r: "processCostData example_engine tagged_costs example_tags tagged_params = Inr r"
    and dc: "detailed_costs r = [disk_item, unnamed_item, myVM_item]"
    by (auto simp add: tagged_sorted)
  have member: "myVM_item \<in> set (detailed_costs r)"
    by (simp add: dc)
  have unnamed: "unnamed_item \<in> set (detailed_costs r)"
    "ResourceId unnamed_item = String []"
    "example_tags [] = Some [(''Env'', ''none'')]"
    by (simp_all add: dc unnamed_item_def example_tags_def)
  from tags_of_records [OF r unnamed(1)] unnamed(2)
  have no_lookup: "Tags unnamed_item = ''No tags''"
    by blast
  have facts: "include_tags tagged_params" "ResourceId myVM_item = String ''/sub/rg/myVM''"
    "example_tags ''/sub/rg/myVM'' = Some [(''Env'', ''PRD''), (''Team'', ''Eng'')]"
    "Tags myVM_item = ''Env=PRD; Team=Eng''"
    by (simp_all add: example_defs myVM_item_def example_tags_def)
  from tags_of_records [OF r member]
  have "\<forall>rid t. include_tags tagged_params \<and> ResourceId myVM_item = String rid \<and> rid \<noteq> []
           \<and> example_tags rid = Some t \<and> t \<noteq> []
        \<longrightarrow> Tags myVM_item = join ''; '' (map (\<lambda>(k, v). k @ ''='' @ v) (Object_entries t))"
    by blast
  with facts have "Tags myVM_item
     = join ''; '' (map (\<lambda>(k, v). k @ ''='' @ v)
         (Object_entries [(''Env'', ''PRD''), (''Team'', ''Eng'')]))"
    by simp
  with member facts unnamed no_lookup r show ?thesis by blast
qed

subsection \<open>C6: columns that are absent\<close>

text \<open>
  Claim C6 (a defect of the program). Every column but \<^verbatim>\<open>PreTaxCost\<close> is read behind
  a test that the column exists. The cost is read without one: in a response that has no
  column \<^verbatim>\<open>PreTaxCost\<close> the cost of every record, and the total, is \<open>NaN\<close>, not a
  fallback value.
\<close>

theorem absent_cost_column_is_NaN:
  "map_sum id (\<lambda>r. (map Cost_INR (detailed_costs r), total_cost (summary r)))
     (processCostData example_engine no_cost_column Map.empty example_params)
   = Inr ([NaN], NaN)"
  unfolding processCostData_def Let_def no_cost_rows sum.case prod.case Array_sort_single
  by (simp add: total_cost_nonempty round2_NaN)

text \<open>The fallbacks of a row, column by column.\<close>

lemma absent_columns:
  assumes "processRow eng cm resourceTags p row = Inr item"
  shows "(cm ''UsageDate'' = None \<longrightarrow> Date item = ''Unknown'')
   \<and> (cm ''ResourceId'' = None \<longrightarrow> ResourceId item = String [] \<and> ResourceName item = ''N/A'')
   \<and> (cm ''ServiceName'' = None \<longrightarrow> ServiceName item = String ''N/A'')
   \<and> (cm ''ResourceGroupName'' = None \<longrightarrow> ResourceGroupName item = String ''N/A'')
   \<and> (cm ''ResourceType'' = None \<longrightarrow> ResourceType item = String ''N/A'')
   \<and> (cm ''PreTaxCost'' = None \<longrightarrow> Cost_INR item = NaN)"
proof -
  note fields = processRow_Inr [OF assms]
  have "cm ''UsageDate'' = None \<longrightarrow> Date item = ''Unknown''"
    by (simp add: fields(1) dateValue_of_def)
  moreover have "cm ''ResourceId'' = None \<longrightarrow> ResourceId item = String []"
    by (simp add: fields(3) resourceId_of_def)
  moreover have "cm ''ResourceId'' = None \<longrightarrow> ResourceName item = ''N/A''"
  proof
    assume "cm ''ResourceId'' = None"
    then have "resourceName_of (resourceId_of cm row) = Inr ''N/A''"
      by (simp add: resourceId_of_def resourceName_of_def)
    with fields(8) show "ResourceName item = ''N/A''" by simp
  qed
  moreover have "cm ''ServiceName'' = None \<longrightarrow> ServiceName item = String ''N/A''"
    by (simp add: fields(5) column_or_NA_def)
  moreover have "cm ''ResourceGroupName'' = None
      \<longrightarrow> ResourceGroupName item = String ''N/A''"
    by (simp add: fields(6) column_or_NA_def)
  moreover have "cm ''ResourceType'' = None \<longrightarrow> ResourceType item = String ''N/A''"
    by (simp add: fields(7) column_or_NA_def)
  moreover have "cm ''PreTaxCost'' = None \<longrightarrow> Cost_INR item = NaN"
    by (simp add: fields(2) cost_of_def row_at_def round2_NaN)
  ultimately show ?thesis by simp
qed

subsection \<open>C7: body and query string\<close>

text \<open>
  Claim C7 says that a parameter present in the body is taken from the body, whatever its
  value. The body is read with \<^verbatim>\<open>body.name || queryParams.name\<close>: a body whose
  \<^verbatim>\<open>start_date\<close> is the empty string yields to the query string. And the presence of
  \<^verbatim>\<open>include_tags\<close> is tested with \<^verbatim>\<open>body.hasOwnProperty('include_tags')\<close>: a body
  that has a property \<^verbatim>\<open>hasOwnProperty\<close> of its own, here the number 1, makes this
  call throw a \<^verbatim>\<open>TypeError\<close>, and no parameter is resolved, whatever else the body
  holds.
\<close>

theorem body_value_not_taken:
  "parse_body example_engine empty_date_event = BObject [(''start_date'', String [])]
   \<and> getRequestParameters example_engine (Some ''sub-1'') empty_date_event =
       Inr \<lparr> start_date = String ''2024-01-01'', end_date = String ''2024-01-31'',
             start_time = String ''00:00:00'', end_time = String ''23:59:59'',
             subscription_id = String ''sub-1'', include_tags = True,
             granularity = String ''Daily'' \<rparr>
   \<and> parse_body example_engine shadowing_event
     = BObject [(''start_date'', String ''2024-03-01''), (''hasOwnProperty'', Number (Fin 1))]
   \<and> getRequestParameters example_engine (Some ''sub-1'') shadowing_event = Inl TypeError"
proof -
  have q: "example_query
     = (case queryStringParameters empty_date_event of None \<Rightarrow> Map.empty | Some q' \<Rightarrow> q')"
    by (simp add: empty_date_event_def)
  have "getRequestParameters example_engine (Some ''sub-1'') empty_date_event
     = Inr (resolve example_engine (Some ''sub-1'') [(''start_date'', String [])]
              (map_of [(''start_date'', String [])] ''include_tags'' \<noteq> None) example_query)"
    by (rule getRequestParameters_object [OF empty_date_parsed _ q]) simp
  moreover have "getRequestParameters example_engine (Some ''sub-1'') shadowing_event
     = Inl TypeError"
    by (rule getRequestParameters_shadowed [OF shadowing_parsed]) simp
  ultimately show ?thesis
    by (simp add: empty_date_parsed shadowing_parsed resolve_def js_or_def body_get_def
        query_get_def env_get_def example_query_def)
qed

text \<open>
  Claim C7, amended. When the body is an object that has a property
  \<^verbatim>\<open>hasOwnProperty\<close> of its own, the resolution throws a \<^verbatim>\<open>TypeError\<close> and
  resolves nothing. When the body is an object without such a property: each of
  \<^verbatim>\<open>start_date\<close>, \<^verbatim>\<open>end_date\<close>, \<^verbatim>\<open>start_time\<close>, \<^verbatim>\<open>end_time\<close>,
  \<^verbatim>\<open>subscription_id\<close> and \<^verbatim>\<open>granularity\<close> is taken from the body when the body
  gives it a truthy value, and otherwise (the body gives none, or a falsy one such as the
  empty string) from the query string and then from its default; \<^verbatim>\<open>include_tags\<close> is
  taken from the body whenever the body has the property, whatever its value.
\<close>

theorem getRequestParameters_body_first:
  assumes "parse_body eng ev = BObject b"
    and "q = (case queryStringParameters ev of None \<Rightarrow> Map.empty | Some q' \<Rightarrow> q')"
  shows "(map_of b ''hasOwnProperty'' \<noteq> None
          \<longrightarrow> getRequestParameters eng env ev = Inl TypeError)
   \<and> (map_of b ''hasOwnProperty'' = None \<longrightarrow>
       (\<exists>p. getRequestParameters eng env ev = Inr p
     \<and> start_date p = (if truthy (body_get b ''start_date'') then body_get b ''start_date''
                        else query_get q ''start_date'')
     \<and> end_date p = (if truthy (body_get b ''end_date'') then body_get b ''end_date''
                      else query_get q ''end_date'')
     \<and> start_time p = (if truthy (body_get b ''start_time'') then body_get b ''start_time''
                        else js_or (query_get q ''start_time'') (String ''00:00:00''))
     \<and> end_time p = (if truthy (body_get b ''end_time'') then body_get b ''end_time''
                      else js_or (query_get q ''end_time'') (String ''23:59:59''))
     \<and> subscription_id p
       = (if truthy (body_get b ''subscription_id'') then body_get b ''subscription_id''
          else js_or (query_get q ''subscription_id'') (env_get env))
     \<and> granularity p = (if truthy (body_get b ''granularity'') then body_get b ''granularity''
                         else js_or (query_get q ''granularity'') (String ''Daily''))
     \<and> (map_of b ''include_tags'' \<noteq> None
          \<longrightarrow> include_tags p = (body_get b ''include_tags'' = Bool True
                                \<or> body_get b ''include_tags'' = String ''true''))))"
proof (intro conjI impI)
  assume "map_of b ''hasOwnProperty'' \<noteq> None"
  with assms(1) show "getRequestParameters eng env ev = Inl TypeError"
    by (rule getRequestParameters_shadowed)
next
  assume own: "map_of b ''hasOwnProperty'' = None"
  let ?p = "resolve eng env b (map_of b ''include_tags'' \<noteq> None) q"
  have "getRequestParameters eng env ev = Inr ?p"
    by (rule getRequestParameters_object [OF assms(1) own assms(2)])
  moreover have "start_date ?p = (if truthy (body_get b ''start_date'')
      then body_get b ''start_date'' else query_get q ''start_date'')"
    by (simp add: resolve_def js_or_def)
  moreover have "end_date ?p = (if truthy (body_get b ''end_date'')
      then body_get b ''end_date'' else query_get q ''end_date'')"
    by (simp add: resolve_def js_or_def)
  moreover have "start_time ?p = (if truthy (body_get b ''start_time'')
      then body_get b ''start_time''
      else js_or (query_get q ''start_time'') (String ''00:00:00''))"
    by (simp add: resolve_def js_or_def)
  moreover have "end_time ?p = (if truthy (body_get b ''end_time'')
      then body_get b ''end_time''
      else js_or (query_get q ''end_time'') (String ''23:59:59''))"
    by (simp add: resolve_def js_or_def)
  moreover have "subscription_id ?p = (if truthy (body_get b ''subscription_id'')
      then body_get b ''subscription_id''
      else js_or (query_get q ''subscription_id'') (env_get env))"
    by (simp add: resolve_def js_or_def)
  moreover have "granularity ?p = (if truthy (body_get b ''granularity'')
      then body_get b ''granularity''
      else js_or (query_get q ''granularity'') (String ''Daily''))"
    by (simp add: resolve_def js_or_def)
  moreover have "map_of b ''include_tags'' \<noteq> None
      \<longrightarrow> include_tags ?p = (body_get b ''include_tags'' = Bool True
                             \<or> body_get b ''include_tags'' = String ''true'')"
    by (simp add: resolve_def)
  ultimately show "\<exists>p. getRequestParameters eng env ev = Inr p
     \<and> start_date p = (if truthy (body_get b ''start_date'') then body_get b ''start_date''
                        else query_get q ''start_date'')
     \<and> end_date p = (if truthy (body_get b ''end_date'') then body_get b ''end_date''
                      else query_get q ''end_date'')
     \<and> start_time p = (if truthy (body_get b ''start_time'') then body_get b ''start_time''
                        else js_or (query_get q ''start_time'') (String ''00:00:00''))
     \<and> end_time p = (if truthy (body_get b ''end_time'') then body_get b ''end_time''
                      else js_or (query_get q ''end_time'') (String ''23:59:59''))
     \<and> subscription_id p
       = (if truthy (body_get b ''subscription_id'') then body_get b ''subscription_id''
          else js_or (query_get q ''subscription_id'') (env_get env))
     \<and> granularity p = (if truthy (body_get b ''granularity'') then body_get b ''granularity''
                         else js_or (query_get q ''granularity'') (String ''Daily''))
     \<and> (map_of b ''include_tags'' \<noteq> None
          \<longrightarrow> include_tags p = (body_get b ''include_tags'' = Bool True
                                \<or> body_get b ''include_tags'' = String ''true''))"
    by blast
qed

theorem getRequestParameters_body_first_witness:
  "parse_body example_engine march_event
     = BObject [(''start_date'', String ''2024-03-01''), (''include_tags'', Bool False)]
   \<and> query_get example_query ''start_date'' = String ''2024-01-01''
   \<and> query_get example_query ''include_tags'' = String ''true''
   \<and> (\<exists>p. getRequestParameters example_engine None march_event = Inr p
          \<and> start_date p = String ''2024-03-01''
          \<and> end_date p = String ''2024-01-31''
          \<and> include_tags p = False)"
proof -
  let ?b = "[(''start_date'', String ''2024-03-01''), (''include_tags'', Bool False)]"
  have q: "example_query
     = (case queryStringParameters march_event of None \<Rightarrow> Map.empty | Some q' \<Rightarrow> q')"
    by (simp add: march_event_def)
  have own: "map_of ?b ''hasOwnProperty'' = None" by simp
  have known: "body_get ?b ''start_date'' = String ''2024-03-01''"
    "body_get ?b ''end_date'' = Undefined"
    "body_get ?b ''include_tags'' = Bool False"
    "map_of ?b ''include_tags'' \<noteq> None"
    "query_get example_query ''start_date'' = String ''2024-01-01''"
    "query_get example_query ''end_date'' = String ''2024-01-31''"
    "query_get example_query ''include_tags'' = String ''true''"
    by (simp_all add: body_get_def query_get_def example_query_def)
  from getRequestParameters_body_first [OF march_parsed q, of None] own
  obtain p where "getRequestParameters example_engine None march_event = Inr p"
    and "start_date p = (if truthy (body_get ?b ''start_date'') then body_get ?b ''start_date''
                          else query_get example_query ''start_date'')"
    and "end_date p = (if truthy (body_get ?b ''end_date'') then body_get ?b ''end_date''
                        else query_get example_query ''end_date'')"
    and "map_of ?b ''include_tags'' \<noteq> None
          \<longrightarrow> include_tags p = (body_get ?b ''include_tags'' = Bool True
                                \<or> body_get ?b ''include_tags'' = String ''true'')"
    by blast
  with known have "getRequestParameters example_engine None march_event = Inr p
      \<and> start_date p = String ''2024-03-01'' \<and> end_date p = String ''2024-01-31''
      \<and> include_tags p = False"
    by simp
  then have "\<exists>p. getRequestParameters example_engine None march_event = Inr p
      \<and> start_date p = String ''2024-03-01'' \<and> end_date p = String ''2024-01-31''
      \<and> include_tags p = False"
    by blast
  with march_parsed known show ?thesis by simp
qed

subsection \<open>C8: the metadata\<close>

text \<open>
  Claim C8 says that the metadata hold every field of the parameters. They hold six of
  the seven: there is no \<^verbatim>\<open>include_tags\<close> among them.
\<close>

theorem metadata_without_include_tags:
  "map_sum id (map fst \<circ> metadata)
     (processCostData example_engine example_costs Map.empty example_params)
   = Inr [''start_date'', ''end_date'', ''start_time'', ''end_time'', ''subscription_id'',
          ''granularity'', ''total_records'', ''generated_at'']
   \<and> map_sum id (\<lambda>r. map_of (metadata r) ''include_tags'')
       (processCostData example_engine example_costs Map.empty example_params)
     = Inr None"
  unfolding processCostData_def Let_def example_rows sum.case prod.case
  by simp

text \<open>
  Claim C8, amended. The metadata are \<^verbatim>\<open>start_date\<close>, \<^verbatim>\<open>end_date\<close>,
  \<^verbatim>\<open>start_time\<close>, \<^verbatim>\<open>end_time\<close>, \<^verbatim>\<open>subscription_id\<close> and \<^verbatim>\<open>granularity\<close> with
  their resolved values, \<^verbatim>\<open>total_records\<close>, which is the length of
  \<^verbatim>\<open>detailed_costs\<close>, and the time of generation; \<^verbatim>\<open>include_tags\<close> is not among
  them.
\<close>

theorem processCostData_metadata:
  assumes "processCostData eng costResp resourceTags p = Inr r"
  shows "metadata r =
      [(''start_date'', start_date p),
       (''end_date'', end_date p),
       (''start_time'', start_time p),
       (''end_time'', end_time p),
       (''subscription_id'', subscription_id p),
       (''granularity'', granularity p),
       (''total_records'', Number (Fin (of_nat (length (detailed_costs r))))),
       (''generated_at'', String (toISOString_now eng))]
     \<and> map_of (metadata r) ''include_tags'' = None"
  using assms
  by (auto simp add: processCostData_def Let_def split: sum.splits prod.splits)

theorem processCostData_metadata_witness:
  "\<exists>r. processCostData example_engine example_costs Map.empty example_params = Inr r
     \<and> length (detailed_costs r) = 3
     \<and> metadata r =
        [(''start_date'', String ''2024-01-01''),
         (''end_date'', String ''2024-01-31''),
         (''start_time'', String ''00:00:00''),
         (''end_time'', String ''23:59:59''),
         (''subscription_id'', String ''sub-1''),
         (''granularity'', String ''Daily''),
         (''total_records'', Number (Fin 3)),
         (''generated_at'', String ''2024-02-01T00:00:00.000Z'')]
     \<and> map_of (metadata r) ''include_tags'' = None"
proof -
  from processCostData_rows [OF example_rows] obtain r where
    r: "processCostData example_engine example_costs Map.empty example_params = Inr r"
    and dc: "detailed_costs r = [vm_item, vm_item, storage_item]"
    by (auto simp add: example_sorted)
  have "length (detailed_costs r) = 3" by (simp add: dc)
  with processCostData_metadata [OF r] r
  show ?thesis by (intro exI [of _ r]) (simp add: example_defs)
qed

subsection \<open>C9: no records\<close>

text \<open>
  Claim C9. The summary of no records is the default of zeros and empty lists, whatever
  the total passed in and whatever the dates of the parameters; a response without rows is
  processed without an error and has this summary.
\<close>

theorem createSummary_empty:
  "createSummary eng [] totalCost p = empty_summary
   \<and> (rows costResp = [] \<longrightarrow>
        (\<exists>r. processCostData eng costResp resourceTags p = Inr r
             \<and> summary r = empty_summary \<and> detailed_costs r = []))"
  by (simp add: createSummary_def empty_summary_def processCostData_def Array_sort_Nil)

theorem createSummary_empty_witness:
  "rows \<lparr> columns = [''UsageDate'', ''PreTaxCost''], rows = [] \<rparr> = []
   \<and> createSummary example_engine [] (Fin 7) invalid_params = empty_summary
   \<and> (\<exists>r. processCostData example_engine \<lparr> columns = [''UsageDate'', ''PreTaxCost''], rows = [] \<rparr>
              Map.empty example_params = Inr r
          \<and> summary r = empty_summary \<and> detailed_costs r = [])"
  using createSummary_empty
    [of example_engine "Fin 7" invalid_params
      "\<lparr> columns = [''UsageDate'', ''PreTaxCost''], rows = [] \<rparr>" Map.empty]
    createSummary_empty
    [of example_engine "Fin 7" example_params
      "\<lparr> columns = [''UsageDate'', ''PreTaxCost''], rows = [] \<rparr>" Map.empty]
  by simp

subsection \<open>C10: the days add up to the total\<close>




end
